theory Spec2Isabelle
  imports Main
begin

section \<open>Data model of the POS data context\<close>

text \<open>
  The data context (\<open>DataProvider\<close>) holds ten pieces of React state, each persisted by
  \<open>useLocalStorage\<close> under its own key. The entity types are imported from \<open>../types\<close>,
  which is not part of the sources at hand; the records below carry the fields that the
  functions of the data context read and write, with the remaining fields taken from the
  data model of the specification.

  The number fields hold integers (stock is an integer quantity). Where a result rests on
  the arithmetic of the source, in \<open>addSale\<close> and \<open>deleteSale\<close>, sums and differences are
  rounded as those of doubles are (section Sales). An optional string field
  (\<open>supplierId?\<close>, \<open>customerId?\<close>) is a \<open>string option\<close>. The functions that build new
  objects and arrays are modelled by value; \<open>addSale\<close> and \<open>deleteSale\<close>, which change product
  objects in place, work on a heap of product objects (section Sales).
\<close>

text \<open>Modelled from the spec: the type \<open>Product\<close> of \<open>../types\<close> (name, category, stock
  quantity, buying price, selling price, optional supplier reference).\<close>

record Product =
  id_product :: string
  name_product :: string
  category :: string
  stock :: int
  buyingPrice :: int
  sellingPrice :: int
  supplierId_product :: "string option"

text \<open>Modelled from the spec: a line item of a \<open>Sale\<close> (product reference, quantity,
  price at the time of sale).\<close>

record SaleItem =
  productId_item :: string
  quantity_item :: int
  price :: int

text \<open>Modelled from the spec: the type \<open>Sale\<close> of \<open>../types\<close> (ordered line items, customer
  classification, date; \<open>customerId\<close> is the field \<open>addSale\<close> writes).\<close>

record Sale =
  id_sale :: string
  items :: "SaleItem list"
  customerType :: string
  customerId :: "string option"
  date_sale :: string

text \<open>The fields of a \<open>Purchase\<close> are the ones \<open>addProduct\<close> and \<open>updateProduct\<close> fill in.\<close>

record Purchase =
  id_purchase :: string
  date_purchase :: string
  supplierId_purchase :: string
  productId_purchase :: string
  quantity_purchase :: int
  unitCost :: int
  totalCost :: int

text \<open>The four record kinds below are only stored by the functions modelled here, never
  inspected; their types are left open.\<close>

typedecl Supplier
typedecl Expense
typedecl Customer
typedecl CustomerPayment

text \<open>Modelled from the spec: the singleton \<open>CompanyInfo\<close> of \<open>../types\<close> (name, optional
  address and phone, optional logo image data).\<close>

record CompanyInfo =
  name_company :: string
  address :: "string option"
  phone :: "string option"
  logo :: "string option"

text \<open>The fields of \<open>SystemSettings\<close> are those of the default object of the provider.\<close>

record SystemSettings =
  businessType :: string
  currency :: string
  taxRate :: int
  enableNotifications :: bool
  enableSound :: bool
  lowStockThreshold :: int
  receiptSize :: string
  receiptFooter :: string
  storagePreference :: string
  storagePath :: string

type_synonym Category = string

record state =
  products :: "Product list"
  sales :: "Sale list"
  suppliers :: "Supplier list"
  expenses :: "Expense list"
  customers :: "Customer list"
  purchases :: "Purchase list"
  customerPayments :: "CustomerPayment list"
  companyInfo :: CompanyInfo
  systemSettings :: SystemSettings
  categories :: "Category list"

section \<open>Array helpers of the host language\<close>

text \<open>\<open>Array.prototype.findIndex\<close>: the index of the first element satisfying the predicate;
  the result \<open>-1\<close> of the source is \<open>None\<close>. (\<open>Array.prototype.find\<close> is \<^const>\<open>List.find\<close>.)\<close>

fun findIndex :: "('a \<Rightarrow> bool) \<Rightarrow> 'a list \<Rightarrow> nat option" where
  "findIndex P [] = None"
| "findIndex P (x # xs) = (if P x then Some 0 else map_option Suc (findIndex P xs))"

section \<open>Products and purchases\<close>

text \<open>\<open>generateId()\<close> reads the clock and the random number generator, and the purchase date
  is today's date; the identifiers and the date are arguments of the model.\<close>

definition addProduct :: "string \<Rightarrow> string \<Rightarrow> string \<Rightarrow> Product \<Rightarrow> state \<Rightarrow> state" where
  "addProduct newId purchaseId today product st =
     (let newProduct = product\<lparr>id_product := newId\<rparr>;
          st1 = st\<lparr>products := products st @ [newProduct]\<rparr>
      in case supplierId_product newProduct of
           None \<Rightarrow> st1
         | Some sid \<Rightarrow>
             if sid \<noteq> [] \<and> stock newProduct > 0 \<and> buyingPrice newProduct > 0 then
               st1\<lparr>purchases := purchases st1 @
                 [\<lparr>id_purchase = purchaseId,
                   date_purchase = today,
                   supplierId_purchase = sid,
                   productId_purchase = id_product newProduct,
                   quantity_purchase = stock newProduct,
                   unitCost = buyingPrice newProduct,
                   totalCost = stock newProduct * buyingPrice newProduct\<rparr>]\<rparr>
             else st1)"

definition updateProduct :: "string \<Rightarrow> string \<Rightarrow> Product \<Rightarrow> state \<Rightarrow> state" where
  "updateProduct purchaseId today updatedProduct st =
     (let oldProduct = find (\<lambda>p. id_product p = id_product updatedProduct) (products st);
          oldStock = (case oldProduct of Some p \<Rightarrow> stock p | None \<Rightarrow> 0);
          st1 = st\<lparr>products :=
                  map (\<lambda>p. if id_product p = id_product updatedProduct then updatedProduct else p)
                    (products st)\<rparr>;
          stockIncrease = stock updatedProduct - oldStock
      in case supplierId_product updatedProduct of
           None \<Rightarrow> st1
         | Some sid \<Rightarrow>
             if sid \<noteq> [] \<and> stockIncrease > 0 \<and> buyingPrice updatedProduct > 0 then
               st1\<lparr>purchases := purchases st1 @
                 [\<lparr>id_purchase = purchaseId,
                   date_purchase = today,
                   supplierId_purchase = sid,
                   productId_purchase = id_product updatedProduct,
                   quantity_purchase = stockIncrease,
                   unitCost = buyingPrice updatedProduct,
                   totalCost = stockIncrease * buyingPrice updatedProduct\<rparr>]\<rparr>
             else st1)"

definition deleteProduct :: "string \<Rightarrow> state \<Rightarrow> state" where
  "deleteProduct productId st =
     st\<lparr>products := filter (\<lambda>p. id_product p \<noteq> productId) (products st)\<rparr>"

section \<open>Sales\<close>

text \<open>\<open>addSale\<close> and \<open>deleteSale\<close> copy the array \<open>products\<close> (\<open>[...products]\<close>) and change the
  stock of the product objects in place: the copy holds the same objects as the state.
  For these two functions the array is therefore a list of addresses into a heap of
  product objects, so that an object the array holds at two indices changes at both.
  The two functions call \<open>setProducts\<close> and \<open>setSales\<close> only; the record holds what they read
  and write.\<close>

type_synonym addr = nat

record memory =
  heap :: "addr \<Rightarrow> Product"
  products_mem :: "addr list"
  sales_mem :: "Sale list"

text \<open>The numbers of the source are IEEE doubles, and \<open>-=\<close> and \<open>+=\<close> give the exact result
  rounded to the nearest double, to the even significand on a tie. On the integers of the
  model: an integer of magnitude at most \<open>2^53\<close> is a double, and a larger one is rounded to
  its 53 leading binary digits. (A fraction, and a result beyond the largest double, which
  is \<open>Infinity\<close> in the source, are not among the integers a number field holds here.)\<close>

fun bitLength :: "nat \<Rightarrow> nat" where
  "bitLength n = (if n = 0 then 0 else 1 + bitLength (n div 2))"

declare bitLength.simps [simp del]

definition roundDouble :: "int \<Rightarrow> int" where
  "roundDouble n =
     (let a = nat \<bar>n\<bar> in
      if a \<le> 2 ^ 53 then n
      else
        (let u = 2 ^ (bitLength a - 53);
             m = a div u;
             r = a mod u;
             m' = (if 2 * r < u then m
                   else if u < 2 * r then m + 1
                   else if even m then m else m + 1)
         in sgn n * int (m' * u)))"

definition jsSub :: "int \<Rightarrow> int \<Rightarrow> int" where
  "jsSub x y = roundDouble (x - y)"

definition jsAdd :: "int \<Rightarrow> int \<Rightarrow> int" where
  "jsAdd x y = roundDouble (x + y)"

text \<open>The bodies of the two \<open>forEach\<close> callbacks: look the product up by \<open>findIndex\<close> and,
  when it is found, change the stock of the object at that index.\<close>

definition deductStock :: "addr list \<Rightarrow> SaleItem \<Rightarrow> (addr \<Rightarrow> Product) \<Rightarrow> (addr \<Rightarrow> Product)" where
  "deductStock newProducts item h =
     (case findIndex (\<lambda>a. id_product (h a) = productId_item item) newProducts of
        None \<Rightarrow> h
      | Some productIndex \<Rightarrow>
          h(newProducts ! productIndex :=
              (h (newProducts ! productIndex))
                \<lparr>stock := jsSub (stock (h (newProducts ! productIndex))) (quantity_item item)\<rparr>))"

definition restoreStock :: "addr list \<Rightarrow> SaleItem \<Rightarrow> (addr \<Rightarrow> Product) \<Rightarrow> (addr \<Rightarrow> Product)" where
  "restoreStock newProducts item h =
     (case findIndex (\<lambda>a. id_product (h a) = productId_item item) newProducts of
        None \<Rightarrow> h
      | Some productIndex \<Rightarrow>
          h(newProducts ! productIndex :=
              (h (newProducts ! productIndex))
                \<lparr>stock := jsAdd (stock (h (newProducts ! productIndex))) (quantity_item item)\<rparr>))"

definition addSale :: "string \<Rightarrow> Sale \<Rightarrow> memory \<Rightarrow> memory" where
  "addSale newId sale m =
     (let newSale0 = sale\<lparr>id_sale := newId\<rparr>;
          newSale = (if customerType sale \<noteq> ''walk-in'' \<and> customerType sale \<noteq> ''online''
                     then newSale0\<lparr>customerId := Some (customerType sale)\<rparr>
                     else newSale0);
          newProducts = products_mem m
      in m\<lparr>heap := fold (deductStock newProducts) (items newSale) (heap m),
            products_mem := newProducts,
            sales_mem := sales_mem m @ [newSale]\<rparr>)"

definition deleteSale :: "string \<Rightarrow> memory \<Rightarrow> memory" where
  "deleteSale saleId m =
     (case find (\<lambda>s. id_sale s = saleId) (sales_mem m) of
        None \<Rightarrow> m
      | Some saleToDelete \<Rightarrow>
          (let newProducts = products_mem m
           in m\<lparr>heap := fold (restoreStock newProducts) (items saleToDelete) (heap m),
                 products_mem := newProducts,
                 sales_mem := filter (\<lambda>s. id_sale s \<noteq> saleId) (sales_mem m)\<rparr>))"

text \<open>For stating what the two loops do: the object \<open>findIndex\<close> finds for a product id
  (the first of the array with that id), whether an object is the one found for its own
  id, the quantity a list of line items holds for a product id, and the sum of the
  magnitudes of those quantities.\<close>

definition foundObject :: "addr list \<Rightarrow> (addr \<Rightarrow> Product) \<Rightarrow> string \<Rightarrow> addr option" where
  "foundObject refs h pid =
     map_option (\<lambda>i. refs ! i) (findIndex (\<lambda>a. id_product (h a) = pid) refs)"

definition matchedObject :: "memory \<Rightarrow> addr \<Rightarrow> bool" where
  "matchedObject m a =
     (foundObject (products_mem m) (heap m) (id_product (heap m a)) = Some a)"

definition soldQuantity :: "SaleItem list \<Rightarrow> string \<Rightarrow> int" where
  "soldQuantity its pid =
     sum_list (map quantity_item (filter (\<lambda>item. productId_item item = pid) its))"

definition soldMagnitude :: "SaleItem list \<Rightarrow> string \<Rightarrow> int" where
  "soldMagnitude its pid =
     sum_list (map (\<lambda>item. \<bar>quantity_item item\<bar>) (filter (\<lambda>item. productId_item item = pid) its))"

definition existingProduct :: "memory \<Rightarrow> SaleItem \<Rightarrow> bool" where
  "existingProduct m item =
     (productId_item item \<in> (\<lambda>a. id_product (heap m a)) ` set (products_mem m))"

text \<open>A form of the two loop bodies with the arithmetic as an argument, used in the proofs.\<close>

definition adjustFound ::
  "(int \<Rightarrow> int \<Rightarrow> int) \<Rightarrow> addr list \<Rightarrow> SaleItem \<Rightarrow> (addr \<Rightarrow> Product) \<Rightarrow> (addr \<Rightarrow> Product)" where
  "adjustFound op refs item h =
     (case foundObject refs h (productId_item item) of
        None \<Rightarrow> h
      | Some a \<Rightarrow> h(a := (h a)\<lparr>stock := op (stock (h a)) (quantity_item item)\<rparr>))"

section \<open>Categories\<close>

text \<open>What \<open>showToast\<close> is called with. The message texts of the source are:
  \<open>CategoryExists n\<close>: warning, Category "n" already exists.
  \<open>CategoryAdded n\<close>: success, Category "n" added.
  \<open>CategoryNameEmpty\<close>: error, Category name cannot be empty.
  \<open>CategoryUpdated\<close>: success, Category updated successfully!
  \<open>CategoryInUse n k\<close>: error, Cannot delete category "n" as it is being used by k product(s).
  \<open>CategoryDeleted n\<close>: success, Category "n" deleted.
  \<open>DataImported\<close>: success, Data imported successfully!
  \<open>InvalidDataFile\<close>: error, Invalid data file.
  \<open>InvalidJsonFile\<close>: error, Invalid JSON file.\<close>

datatype notice =
    CategoryExists string
  | CategoryAdded string
  | CategoryNameEmpty
  | CategoryUpdated
  | CategoryInUse string nat
  | CategoryDeleted string
  | DataImported
  | InvalidDataFile
  | InvalidJsonFile

text \<open>\<open>String.prototype.trim\<close> and \<open>String.prototype.toLowerCase\<close>, on the ASCII characters
  a \<open>string\<close> of the model holds: white space is the space and the control characters
  \<open>0x09\<close> to \<open>0x0D\<close>, and the letters \<open>A\<close> to \<open>Z\<close> have a lower case.\<close>

definition isWhitespace :: "char \<Rightarrow> bool" where
  "isWhitespace c = (let n = (of_char c :: nat) in n = 32 \<or> (9 \<le> n \<and> n \<le> 13))"

definition trim :: "string \<Rightarrow> string" where
  "trim s = rev (dropWhile isWhitespace (rev (dropWhile isWhitespace s)))"

definition toLowerCase :: "string \<Rightarrow> string" where
  "toLowerCase s =
     map (\<lambda>c. case map_of (zip ''ABCDEFGHIJKLMNOPQRSTUVWXYZ'' ''abcdefghijklmnopqrstuvwxyz'') c of
                 Some l \<Rightarrow> l
               | None \<Rightarrow> c) s"

definition addCategory :: "string \<Rightarrow> state \<Rightarrow> bool \<times> notice \<times> state" where
  "addCategory name st =
     (let trimmedName = trim name in
      if toLowerCase trimmedName \<in> set (map toLowerCase (categories st))
      then (False, CategoryExists trimmedName, st)
      else (True, CategoryAdded trimmedName, st\<lparr>categories := categories st @ [trimmedName]\<rparr>))"

definition updateCategory :: "string \<Rightarrow> string \<Rightarrow> state \<Rightarrow> bool \<times> notice \<times> state" where
  "updateCategory oldName newName st =
     (let trimmedNewName = trim newName in
      if trimmedNewName = [] then (False, CategoryNameEmpty, st)
      else if toLowerCase oldName \<noteq> toLowerCase trimmedNewName
              \<and> toLowerCase trimmedNewName \<in> set (map toLowerCase (categories st))
      then (False, CategoryExists trimmedNewName, st)
      else
        (let newProducts =
               map (\<lambda>p. if category p = oldName then p\<lparr>category := trimmedNewName\<rparr> else p)
                 (products st)
         in (True, CategoryUpdated,
             st\<lparr>products := newProducts,
                categories := map (\<lambda>c. if c = oldName then trimmedNewName else c) (categories st)\<rparr>)))"

text \<open>\<open>window.confirm\<close> is asked only when no product uses the category; \<open>confirmed\<close> is the
  answer it gives.\<close>

definition deleteCategory :: "bool \<Rightarrow> string \<Rightarrow> state \<Rightarrow> notice option \<times> state" where
  "deleteCategory confirmed name st =
     (let productsUsingCategory = length (filter (\<lambda>p. category p = name) (products st)) in
      if productsUsingCategory > 0
      then (Some (CategoryInUse name productsUsingCategory), st)
      else if confirmed
      then (Some (CategoryDeleted name), st\<lparr>categories := filter (\<lambda>c. c \<noteq> name) (categories st)\<rparr>)
      else (None, st))"

text \<open>\<open>handleAddCategory\<close> of the settings form, the caller of \<open>addCategory\<close>: it refuses a
  name that is empty after trimming before \<open>addCategory\<close> is called.\<close>

definition handleAddCategory :: "string \<Rightarrow> state \<Rightarrow> notice \<times> state" where
  "handleAddCategory newCategoryName st =
     (if trim newCategoryName = [] then (CategoryNameEmpty, st)
      else snd (addCategory newCategoryName st))"

text \<open>Sequences of calls on the category set.\<close>

datatype categoryCall =
    AddCategory string
  | HandleAddCategory string
  | UpdateCategory string string

fun runCall :: "categoryCall \<Rightarrow> state \<Rightarrow> state" where
  "runCall (AddCategory name) st = snd (snd (addCategory name st))"
| "runCall (HandleAddCategory name) st = snd (handleAddCategory name st)"
| "runCall (UpdateCategory oldName newName) st = snd (snd (updateCategory oldName newName st))"

definition runCalls :: "categoryCall list \<Rightarrow> state \<Rightarrow> state" where
  "runCalls calls st = fold runCall calls st"

text \<open>The two halves of the invariant of the category set.\<close>

definition uniqueNames :: "Category list \<Rightarrow> bool" where
  "uniqueNames cs = distinct (map toLowerCase cs)"

definition noEmptyName :: "Category list \<Rightarrow> bool" where
  "noEmptyName cs = list_all (\<lambda>c. trim c \<noteq> []) cs"

fun nonEmptyArgument :: "categoryCall \<Rightarrow> bool" where
  "nonEmptyArgument (AddCategory name) = (trim name \<noteq> [])"
| "nonEmptyArgument (HandleAddCategory name) = True"
| "nonEmptyArgument (UpdateCategory oldName newName) = True"

section \<open>Backup: import and export\<close>

text \<open>\<open>importData\<close> takes \<open>data: any\<close>, the result of \<open>JSON.parse\<close>, and hands its properties
  to the setters unchecked; the types of TypeScript are erased when it runs. At this
  boundary a value is therefore a JSON value, and the ten pieces of state are a store
  from the key of each (\<open>products\<close>, \<open>sales\<close>, ...) to the value it holds, \<open>None\<close> where it
  holds \<open>undefined\<close>. The properties of an object are an association list, read by
  \<^const>\<open>map_of\<close>.\<close>

datatype json =
    JNull
  | JBool bool
  | JNum int
  | JStr string
  | JArr "json list"
  | JObj "(string \<times> json) list"

type_synonym store = "string \<Rightarrow> json option"

datatype exn = TypeError

text \<open>Reading a property: of \<open>null\<close> it throws, of an object it is the property or
  \<open>undefined\<close> (\<open>None\<close>), and a number, string, boolean or array has none of the
  properties read here.\<close>

fun getProp :: "json \<Rightarrow> string \<Rightarrow> exn + json option" where
  "getProp JNull k = Inl TypeError"
| "getProp (JObj kvs) k = Inr (map_of kvs k)"
| "getProp v k = Inr None"

fun truthyJson :: "json \<Rightarrow> bool" where
  "truthyJson JNull = False"
| "truthyJson (JBool b) = b"
| "truthyJson (JNum n) = (n \<noteq> 0)"
| "truthyJson (JStr s) = (s \<noteq> [])"
| "truthyJson (JArr vs) = True"
| "truthyJson (JObj kvs) = True"

text \<open>One statement \<open>if (data.k) setK(data.k)\<close> of the \<open>try\<close> block.\<close>

definition importStep :: "json \<Rightarrow> string \<Rightarrow> store \<Rightarrow> exn + store" where
  "importStep data k st =
     (case getProp data k of
        Inl e \<Rightarrow> Inl e
      | Inr None \<Rightarrow> Inr st
      | Inr (Some v) \<Rightarrow> if truthyJson v then Inr (st(k \<mapsto> v)) else Inr st)"

text \<open>The statements of the \<open>try\<close> block in order: an exception leaves the block, and
  what the setters called before it have stored stays.\<close>

fun importSteps :: "json \<Rightarrow> string list \<Rightarrow> store \<Rightarrow> exn option \<times> store" where
  "importSteps data [] st = (None, st)"
| "importSteps data (k # ks) st =
     (case importStep data k st of
        Inl e \<Rightarrow> (Some e, st)
      | Inr st' \<Rightarrow> importSteps data ks st')"

definition importKeys :: "string list" where
  "importKeys = [''products'', ''sales'', ''suppliers'', ''expenses'', ''customers'',
     ''purchases'', ''customerPayments'', ''companyInfo'', ''systemSettings'', ''categories'']"

text \<open>The effect of the provider that depends on \<open>systemSettings.businessType\<close>. The table
  \<open>DEFAULT_CATEGORIES\<close> of \<open>../constants\<close> is not part of the sources at hand; the two
  values the effect takes from it are arguments: \<open>defaultCategoriesOf v\<close> is
  \<open>DEFAULT_CATEGORIES[v]\<close>, the list of a business type and \<open>undefined\<close> (\<open>None\<close>) for any
  other value, and \<open>allDefaultCategories\<close> is \<open>Object.values(DEFAULT_CATEGORIES).flat()\<close>.

  \<open>isDefaultOrEmpty\<close> reads \<open>categories.length\<close> and calls \<open>categories.every\<close>: on
  \<open>undefined\<close> and \<open>null\<close> the first throws, and on a value that is not an array and has
  no \<open>length\<close> equal to 0 the second does. An effect that throws stores nothing.\<close>

definition businessTypeOf :: "json option \<Rightarrow> exn + json option" where
  "businessTypeOf settings =
     (case settings of
        None \<Rightarrow> Inl TypeError
      | Some v \<Rightarrow> getProp v ''businessType'')"

definition isDefaultOrEmpty :: "string list \<Rightarrow> json option \<Rightarrow> exn + bool" where
  "isDefaultOrEmpty allDefaultCategories cats =
     (case cats of
        Some (JArr cs) \<Rightarrow>
          Inr (cs = [] \<or> list_all (\<lambda>c. c \<in> JStr ` set allDefaultCategories) cs)
      | Some (JStr s) \<Rightarrow> if s = [] then Inr True else Inl TypeError
      | Some (JObj kvs) \<Rightarrow>
          if map_of kvs ''length'' = Some (JNum 0) then Inr True else Inl TypeError
      | _ \<Rightarrow> Inl TypeError)"

definition businessTypeEffect ::
  "(json option \<Rightarrow> string list option) \<Rightarrow> string list \<Rightarrow> store \<Rightarrow> store" where
  "businessTypeEffect defaultCategoriesOf allDefaultCategories st =
     (case isDefaultOrEmpty allDefaultCategories (st ''categories'') of
        Inr True \<Rightarrow>
          (case businessTypeOf (st ''systemSettings'') of
             Inl e \<Rightarrow> st
           | Inr bt \<Rightarrow>
               st(''categories'' :=
                    map_option (\<lambda>cs. JArr (map JStr cs)) (defaultCategoriesOf bt)))
      | _ \<Rightarrow> st)"

text \<open>The store once the statements of \<open>importData\<close> have run, before the render.\<close>

definition writtenStore :: "json \<Rightarrow> store \<Rightarrow> store" where
  "writtenStore data st = snd (importSteps data importKeys st)"

text \<open>The render that follows a change of the state: the effect runs when
  \<open>systemSettings.businessType\<close> is not the value of the render before. (Its other
  dependency, the setter \<open>setCategories\<close>, is taken to be the same function in every
  render, as the setters of \<open>useState\<close> are; business types are compared as values.)\<close>

definition render ::
  "(json option \<Rightarrow> string list option) \<Rightarrow> string list \<Rightarrow> store \<Rightarrow> store \<Rightarrow> store" where
  "render defaultCategoriesOf allDefaultCategories before st =
     (if businessTypeOf (st ''systemSettings'') \<noteq> businessTypeOf (before ''systemSettings'')
      then businessTypeEffect defaultCategoriesOf allDefaultCategories st
      else st)"

text \<open>\<open>importData\<close>, with the render that follows it: the state it leaves is the state
  after the effect.\<close>

definition importData ::
  "(json option \<Rightarrow> string list option) \<Rightarrow> string list \<Rightarrow> bool \<Rightarrow> json \<Rightarrow> store
     \<Rightarrow> notice option \<times> store" where
  "importData defaultCategoriesOf allDefaultCategories confirmed data st =
     (if confirmed then
        (case importSteps data importKeys st of
           (None, st') \<Rightarrow>
             (Some DataImported, render defaultCategoriesOf allDefaultCategories st st')
         | (Some e, st') \<Rightarrow>
             (Some InvalidDataFile, render defaultCategoriesOf allDefaultCategories st st'))
      else (None, st))"

text \<open>\<open>handleImportJson\<close> of the settings form, once the file is read: \<open>parse\<close> stands for
  \<open>JSON.parse\<close>, with \<open>None\<close> for the \<open>SyntaxError\<close> it throws.\<close>

definition handleImportJson ::
  "(json option \<Rightarrow> string list option) \<Rightarrow> string list \<Rightarrow> (string \<Rightarrow> json option) \<Rightarrow> bool
     \<Rightarrow> string \<Rightarrow> store \<Rightarrow> notice option \<times> store" where
  "handleImportJson defaultCategoriesOf allDefaultCategories parse confirmed text st =
     (case parse text of
        None \<Rightarrow> (Some InvalidJsonFile, st)
      | Some data \<Rightarrow> importData defaultCategoriesOf allDefaultCategories confirmed data st)"

text \<open>The document \<open>exportBackup\<close> writes: the object of the ten pieces of state, as
  \<open>JSON.stringify\<close> writes it and \<open>JSON.parse\<close> reads it back, that is without the
  properties that are \<open>undefined\<close>.\<close>

definition exportKeys :: "string list" where
  "exportKeys = [''products'', ''sales'', ''suppliers'', ''expenses'', ''customers'',
     ''companyInfo'', ''systemSettings'', ''categories'', ''purchases'', ''customerPayments'']"

definition exportBackup :: "store \<Rightarrow> json" where
  "exportBackup st = JObj (List.map_filter (\<lambda>k. map_option (\<lambda>v. (k, v)) (st k)) exportKeys)"

text \<open>The structure the specification expects of a backup document: an object in which
  each of the eight collections, when present, is an array and each of the two singletons,
  when present, is an object.\<close>

definition hasShape :: "(json \<Rightarrow> bool) \<Rightarrow> json option \<Rightarrow> bool" where
  "hasShape ok v = (case v of None \<Rightarrow> True | Some x \<Rightarrow> ok x)"

fun isArray :: "json \<Rightarrow> bool" where
  "isArray (JArr vs) = True"
| "isArray v = False"

fun isObject :: "json \<Rightarrow> bool" where
  "isObject (JObj kvs) = True"
| "isObject v = False"

definition expectedStructure :: "json \<Rightarrow> bool" where
  "expectedStructure data =
     (case data of
        JObj kvs \<Rightarrow>
          list_all (\<lambda>k. hasShape (if k = ''companyInfo'' \<or> k = ''systemSettings''
                                  then isObject else isArray) (map_of kvs k)) importKeys
      | _ \<Rightarrow> False)"

section \<open>Example data\<close>

text \<open>The defaults of the provider, an empty state, and the products and sales of the
  scenarios of the specification.\<close>

definition defaultCompanyInfo :: CompanyInfo where
  "defaultCompanyInfo = \<lparr>name_company = ''Swift POS'', address = None, phone = None, logo = None\<rparr>"

definition defaultSettings :: SystemSettings where
  "defaultSettings =
     \<lparr>businessType = ''clothing'', currency = ''MMK'', taxRate = 0, enableNotifications = True,
      enableSound = True, lowStockThreshold = 10, receiptSize = ''standard'',
      receiptFooter = ''Thank you for your purchase!'', storagePreference = ''local'',
      storagePath = []\<rparr>"

definition emptyState :: state where
  "emptyState =
     \<lparr>products = [], sales = [], suppliers = [], expenses = [], customers = [], purchases = [],
      customerPayments = [], companyInfo = defaultCompanyInfo, systemSettings = defaultSettings,
      categories = []\<rparr>"

definition shirt :: Product where
  "shirt = \<lparr>id_product = [], name_product = ''Shirt'', category = ''Clothing'', stock = 10,
     buyingPrice = 5, sellingPrice = 10, supplierId_product = Some ''S1''\<rparr>"

definition productA :: Product where
  "productA = \<lparr>id_product = ''A'', name_product = ''A'', category = ''Clothing'', stock = 10,
     buyingPrice = 5, sellingPrice = 10, supplierId_product = Some ''S1''\<rparr>"

definition productB :: Product where
  "productB = \<lparr>id_product = ''B'', name_product = ''B'', category = ''Shoes'', stock = 5,
     buyingPrice = 20, sellingPrice = 30, supplierId_product = None\<rparr>"

definition shopState :: state where
  "shopState = emptyState\<lparr>products := [productA, productB], categories := [''Clothing'', ''Shoes'']\<rparr>"

definition saleAB :: Sale where
  "saleAB = \<lparr>id_sale = [],
     items = [\<lparr>productId_item = ''A'', quantity_item = 3, price = 10\<rparr>,
              \<lparr>productId_item = ''B'', quantity_item = 2, price = 30\<rparr>],
     customerType = ''walk-in'', customerId = None, date_sale = ''2024-01-01''\<rparr>"

definition saleDangling :: Sale where
  "saleDangling = \<lparr>id_sale = [],
     items = [\<lparr>productId_item = ''A'', quantity_item = 3, price = 10\<rparr>,
              \<lparr>productId_item = ''gone'', quantity_item = 4, price = 7\<rparr>],
     customerType = ''online'', customerId = None, date_sale = ''2024-01-02''\<rparr>"

text \<open>A heap with the two products at the addresses 0 and 2, held by an array that has the
  first of them at two indices; a product with a stock just above \<open>2^53\<close>, and sales of
  one unit of it, the second with a line item for a product that does not exist.\<close>

definition shopMemory :: memory where
  "shopMemory =
     \<lparr>heap = (\<lambda>a. if a = 0 then productA else productB), products_mem = [0, 0, 2],
      sales_mem = []\<rparr>"

definition bigMemory :: memory where
  "bigMemory =
     \<lparr>heap = (\<lambda>a. productA\<lparr>stock := 9007199254740994\<rparr>), products_mem = [0], sales_mem = []\<rparr>"

definition saleOne :: Sale where
  "saleOne = \<lparr>id_sale = [],
     items = [\<lparr>productId_item = ''A'', quantity_item = 1, price = 10\<rparr>],
     customerType = ''walk-in'', customerId = None, date_sale = ''2024-01-03''\<rparr>"

definition saleOneDangling :: Sale where
  "saleOneDangling = \<lparr>id_sale = [],
     items = [\<lparr>productId_item = ''gone'', quantity_item = 4, price = 7\<rparr>,
              \<lparr>productId_item = ''A'', quantity_item = 1, price = 10\<rparr>],
     customerType = ''walk-in'', customerId = None, date_sale = ''2024-01-04''\<rparr>"

text \<open>A table of default categories for two business types; a store of a clothing shop
  with no categories and one product; backup documents that hold the categories only and
  the settings of a grocery only, and a document whose \<open>products\<close> is a number.\<close>

definition exampleDefaultsOf :: "json option \<Rightarrow> string list option" where
  "exampleDefaultsOf v =
     (if v = Some (JStr ''clothing'') then Some [''Shirts'', ''Trousers'']
      else if v = Some (JStr ''grocery'') then Some [''Fruit'']
      else None)"

definition exampleAllDefaults :: "string list" where
  "exampleAllDefaults = [''Shirts'', ''Trousers'', ''Fruit'']"

definition emptyStore :: store where
  "emptyStore k =
     (if k = ''systemSettings'' then Some (JObj [(''businessType'', JStr ''clothing'')])
      else if k = ''companyInfo'' then Some (JObj [(''name'', JStr ''Swift POS'')])
      else Some (JArr []))"

definition sampleStore :: store where
  "sampleStore =
     emptyStore(''products'' \<mapsto> JArr [JObj [(''id'', JStr ''A''), (''stock'', JNum 10)]])"

definition categoriesDoc :: json where
  "categoriesDoc = JObj [(''categories'', JArr [JStr ''Hats''])]"

definition groceryDoc :: json where
  "groceryDoc = JObj [(''systemSettings'', JObj [(''businessType'', JStr ''grocery'')])]"

definition numberDoc :: json where
  "numberDoc = JObj [(''products'', JNum 5)]"

section \<open>Lemmas on the example data\<close>

lemmas example_defs = emptyState_def shopState_def productA_def productB_def saleAB_def
  saleDangling_def shirt_def

section \<open>The stock loops of addSale and deleteSale\<close>

lemma roundDouble_exact: "\<bar>n\<bar> \<le> 2 ^ 53 \<Longrightarrow> roundDouble n = n"
  by (simp add: roundDouble_def Let_def nat_le_iff)

lemma deductStock_adjustFound: "deductStock refs = adjustFound jsSub refs"
  by (rule ext, rule ext)
    (simp add: deductStock_def adjustFound_def foundObject_def split: option.splits)

lemma restoreStock_adjustFound: "restoreStock refs = adjustFound jsAdd refs"
  by (rule ext, rule ext)
    (simp add: restoreStock_def adjustFound_def foundObject_def split: option.splits)

lemma adjustFound_id: "id_product (adjustFound op refs item h a) = id_product (h a)"
  by (simp add: adjustFound_def split: option.splits)

lemma foundObject_ids:
  "(\<And>a. id_product (h' a) = id_product (h a)) \<Longrightarrow> foundObject refs h' pid = foundObject refs h pid"
  by (simp add: foundObject_def)

lemma foundObject_adjustFound:
  "foundObject refs (adjustFound op refs item h) pid = foundObject refs h pid"
  by (rule foundObject_ids) (rule adjustFound_id)

lemma findIndex_Some_nth:
  "findIndex P xs = Some j \<Longrightarrow> j < length xs \<and> P (xs ! j)"
  by (induction xs arbitrary: j) (auto split: if_splits)

lemma findIndex_None: "findIndex P xs = None \<longleftrightarrow> (\<forall>x\<in>set xs. \<not> P x)"
  by (induction xs) auto

lemma foundObject_Some:
  "foundObject refs h pid = Some a \<Longrightarrow> a \<in> set refs \<and> id_product (h a) = pid"
  by (auto simp: foundObject_def dest!: findIndex_Some_nth)

lemma foundObject_None:
  "foundObject refs h pid = None \<longleftrightarrow> pid \<notin> (\<lambda>a. id_product (h a)) ` set refs"
  by (auto simp: foundObject_def findIndex_None)

lemma fold_adjustFound:
  "fold (adjustFound op refs) its h a =
     (h a)\<lparr>stock := fold (\<lambda>q s. op s q)
        (map quantity_item (filter (\<lambda>item. foundObject refs h (productId_item item) = Some a) its))
        (stock (h a))\<rparr>"
proof (induction its arbitrary: h)
  case Nil
  show ?case by simp
next
  case (Cons it its)
  let ?h1 = "adjustFound op refs it h"
  have "fold (adjustFound op refs) (it # its) h a = fold (adjustFound op refs) its ?h1 a"
    by simp
  also have "\<dots> = (?h1 a)\<lparr>stock := fold (\<lambda>q s. op s q)
        (map quantity_item (filter (\<lambda>item. foundObject refs h (productId_item item) = Some a) its))
        (stock (?h1 a))\<rparr>"
    by (simp add: Cons.IH foundObject_adjustFound)
  also have "\<dots> = (h a)\<lparr>stock := fold (\<lambda>q s. op s q)
        (map quantity_item
          (filter (\<lambda>item. foundObject refs h (productId_item item) = Some a) (it # its)))
        (stock (h a))\<rparr>"
    by (auto simp: adjustFound_def split: option.splits)
  finally show ?case .
qed

lemma found_filter:
  "filter (\<lambda>item. foundObject refs h (productId_item item) = Some a) its =
     (if foundObject refs h (id_product (h a)) = Some a
      then filter (\<lambda>item. productId_item item = id_product (h a)) its else [])"
proof (cases "foundObject refs h (id_product (h a)) = Some a")
  case True
  then have eq: "\<And>item. (foundObject refs h (productId_item item) = Some a)
      = (productId_item item = id_product (h a))"
    by (auto dest: foundObject_Some)
  have "filter (\<lambda>item. foundObject refs h (productId_item item) = Some a) its
      = filter (\<lambda>item. productId_item item = id_product (h a)) its"
    by (simp only: eq)
  with True show ?thesis by (simp only: if_True refl)
next
  case False
  then have none: "\<And>item. foundObject refs h (productId_item item) \<noteq> Some a"
    by (metis foundObject_Some)
  have "filter (\<lambda>item. foundObject refs h (productId_item item) = Some a) its = []"
    unfolding filter_empty_conv using none by blast
  with False show ?thesis by (simp only: if_False)
qed

lemma fold_jsSub_exact:
  "\<bar>s\<bar> + sum_list (map abs qs) \<le> 2 ^ 53 \<Longrightarrow> fold (\<lambda>q s. jsSub s q) qs s = s - sum_list qs"
proof (induction qs arbitrary: s)
  case Nil
  show ?case by simp
next
  case (Cons q qs)
  have nonneg: "0 \<le> sum_list (map abs qs)"
    by (rule sum_list_nonneg) auto
  from Cons.prems nonneg have small: "\<bar>s - q\<bar> \<le> 2 ^ 53" by simp
  then have step: "jsSub s q = s - q"
    by (simp add: jsSub_def roundDouble_exact)
  from Cons.prems have "\<bar>s - q\<bar> + sum_list (map abs qs) \<le> 2 ^ 53" by simp
  from Cons.IH [OF this] step show ?case by simp
qed

lemma fold_jsAdd_exact:
  "\<bar>t + sum_list qs\<bar> + sum_list (map abs qs) \<le> 2 ^ 53 \<Longrightarrow>
   fold (\<lambda>q s. jsAdd s q) qs t = t + sum_list qs"
proof (induction qs arbitrary: t)
  case Nil
  show ?case by simp
next
  case (Cons q qs)
  have nonneg: "0 \<le> sum_list (map abs qs)"
    by (rule sum_list_nonneg) auto
  have "\<bar>sum_list qs\<bar> \<le> sum_list (map abs qs)"
    by (rule sum_list_abs)
  with Cons.prems have small: "\<bar>t + q\<bar> \<le> 2 ^ 53" by simp
  then have step: "jsAdd t q = t + q"
    by (simp add: jsAdd_def roundDouble_exact)
  from Cons.prems have "\<bar>(t + q) + sum_list qs\<bar> + sum_list (map abs qs) \<le> 2 ^ 53"
    by (simp add: add.assoc)
  from Cons.IH [OF this] step show ?case by simp
qed

lemma fold_jsAdd_jsSub:
  assumes "\<bar>s\<bar> + sum_list (map abs qs) \<le> 2 ^ 53"
  shows "fold (\<lambda>q s. jsAdd s q) qs (fold (\<lambda>q s. jsSub s q) qs s) = s"
proof -
  have sub: "fold (\<lambda>q s. jsSub s q) qs s = s - sum_list qs"
    using assms by (rule fold_jsSub_exact)
  have "\<bar>(s - sum_list qs) + sum_list qs\<bar> + sum_list (map abs qs) \<le> 2 ^ 53"
    using assms by simp
  from fold_jsAdd_exact [OF this] sub show ?thesis by simp
qed


lemma fold_adjustFound_id:
  "id_product (fold (adjustFound op refs) its h a) = id_product (h a)"
  by (simp add: fold_adjustFound)

lemma foundObject_fold:
  "foundObject refs (fold (adjustFound op refs) its h) pid = foundObject refs h pid"
  by (rule foundObject_ids) (rule fold_adjustFound_id)

lemma targeted_magnitude:
  "sum_list (map abs (map quantity_item (filter (\<lambda>item. productId_item item = pid) its)))
     = soldMagnitude its pid"
  by (simp add: soldMagnitude_def comp_def)

lemma fold_deduct_at:
  assumes "a \<in> set refs \<longrightarrow> \<bar>stock (h a)\<bar> + soldMagnitude its (id_product (h a)) \<le> 2 ^ 53"
  shows "fold (deductStock refs) its h a =
     (h a)\<lparr>stock := stock (h a) -
        (if foundObject refs h (id_product (h a)) = Some a
         then soldQuantity its (id_product (h a)) else 0)\<rparr>"
proof (cases "foundObject refs h (id_product (h a)) = Some a")
  case True
  then have "a \<in> set refs" by (auto dest: foundObject_Some)
  with assms have "\<bar>stock (h a)\<bar>
      + sum_list (map abs (map quantity_item
          (filter (\<lambda>item. productId_item item = id_product (h a)) its))) \<le> 2 ^ 53"
    by (simp only: targeted_magnitude)
  from fold_jsSub_exact [OF this] True show ?thesis
    by (simp add: deductStock_adjustFound fold_adjustFound found_filter soldQuantity_def)
next
  case False
  then show ?thesis
    by (simp add: deductStock_adjustFound fold_adjustFound found_filter)
qed

lemma fold_restore_at:
  assumes "a \<in> set refs \<longrightarrow>
      \<bar>stock (h a) + soldQuantity its (id_product (h a))\<bar>
        + soldMagnitude its (id_product (h a)) \<le> 2 ^ 53"
  shows "fold (restoreStock refs) its h a =
     (h a)\<lparr>stock := stock (h a) +
        (if foundObject refs h (id_product (h a)) = Some a
         then soldQuantity its (id_product (h a)) else 0)\<rparr>"
proof (cases "foundObject refs h (id_product (h a)) = Some a")
  case True
  then have "a \<in> set refs" by (auto dest: foundObject_Some)
  with assms have "\<bar>stock (h a)
        + sum_list (map quantity_item
            (filter (\<lambda>item. productId_item item = id_product (h a)) its))\<bar>
      + sum_list (map abs (map quantity_item
          (filter (\<lambda>item. productId_item item = id_product (h a)) its))) \<le> 2 ^ 53"
    by (simp only: targeted_magnitude) (simp add: soldQuantity_def)
  from fold_jsAdd_exact [OF this] True show ?thesis
    by (simp add: restoreStock_adjustFound fold_adjustFound found_filter soldQuantity_def)
next
  case False
  then show ?thesis
    by (simp add: restoreStock_adjustFound fold_adjustFound found_filter)
qed

lemma fold_restore_deduct:
  assumes safe: "\<forall>a\<in>set refs. \<bar>stock (h a)\<bar> + soldMagnitude its (id_product (h a)) \<le> 2 ^ 53"
  shows "fold (restoreStock refs) its (fold (deductStock refs) its h) = h"
proof (rule ext)
  fix a
  let ?h1 = "fold (adjustFound jsSub refs) its h"
  let ?qs = "map quantity_item
      (filter (\<lambda>item. foundObject refs h (productId_item item) = Some a) its)"
  have after: "fold (adjustFound jsAdd refs) its ?h1 a =
      (h a)\<lparr>stock := fold (\<lambda>q s. jsAdd s q) ?qs (fold (\<lambda>q s. jsSub s q) ?qs (stock (h a)))\<rparr>"
    by (simp add: fold_adjustFound [of jsAdd refs its ?h1] foundObject_fold)
      (simp add: fold_adjustFound [of jsSub refs its h])
  have "fold (\<lambda>q s. jsAdd s q) ?qs (fold (\<lambda>q s. jsSub s q) ?qs (stock (h a))) = stock (h a)"
  proof (cases "foundObject refs h (id_product (h a)) = Some a")
    case True
    then have "a \<in> set refs" by (auto dest: foundObject_Some)
    with safe have "\<bar>stock (h a)\<bar> + soldMagnitude its (id_product (h a)) \<le> 2 ^ 53"
      by blast
    moreover have "sum_list (map abs ?qs) = soldMagnitude its (id_product (h a))"
      unfolding found_filter using True by (simp add: soldMagnitude_def comp_def)
    ultimately have "\<bar>stock (h a)\<bar> + sum_list (map abs ?qs) \<le> 2 ^ 53"
      by simp
    then show ?thesis by (rule fold_jsAdd_jsSub)
  next
    case False
    then show ?thesis by (simp add: found_filter)
  qed
  with after show "fold (restoreStock refs) its (fold (deductStock refs) its h) a = h a"
    by (simp add: deductStock_adjustFound restoreStock_adjustFound)
qed

lemma find_append_fresh:
  "\<forall>s\<in>set xs. \<not> P s \<Longrightarrow> P y \<Longrightarrow> find P (xs @ [y]) = Some y"
  by (induction xs) auto

lemma filter_append_fresh:
  "\<forall>s\<in>set xs. \<not> P s \<Longrightarrow> P y \<Longrightarrow> filter (\<lambda>s. \<not> P s) (xs @ [y]) = xs"
  by (induction xs) auto

lemma addSale_unfold:
  "addSale newId sale m =
     m\<lparr>heap := fold (deductStock (products_mem m)) (items sale) (heap m),
       sales_mem := sales_mem m @
          [if customerType sale \<noteq> ''walk-in'' \<and> customerType sale \<noteq> ''online''
           then sale\<lparr>id_sale := newId, customerId := Some (customerType sale)\<rparr>
           else sale\<lparr>id_sale := newId\<rparr>]\<rparr>"
  by (simp add: addSale_def Let_def)

lemma deleteSale_addSale_heap:
  assumes fresh: "newId \<notin> id_sale ` set (sales_mem m)"
  shows "deleteSale newId (addSale newId sale m) =
     m\<lparr>heap := fold (restoreStock (products_mem m)) (items sale)
                 (fold (deductStock (products_mem m)) (items sale) (heap m))\<rparr>"
proof -
  define newSale where "newSale = (if customerType sale \<noteq> ''walk-in'' \<and> customerType sale \<noteq> ''online''
                     then sale\<lparr>id_sale := newId, customerId := Some (customerType sale)\<rparr>
                     else sale\<lparr>id_sale := newId\<rparr>)"
  have id: "id_sale newSale = newId" and its: "items newSale = items sale"
    by (simp_all add: newSale_def)
  have add: "addSale newId sale m =
     m\<lparr>heap := fold (deductStock (products_mem m)) (items sale) (heap m),
       sales_mem := sales_mem m @ [newSale]\<rparr>"
    by (simp add: addSale_unfold newSale_def)
  from fresh have nf: "\<forall>s\<in>set (sales_mem m). \<not> id_sale s = newId" by auto
  have f: "find (\<lambda>s. id_sale s = newId) (sales_mem m @ [newSale]) = Some newSale"
    using find_append_fresh [OF nf, of newSale] id by simp
  have g: "filter (\<lambda>s. id_sale s \<noteq> newId) (sales_mem m @ [newSale]) = sales_mem m"
    using filter_append_fresh [OF nf, of newSale] id by simp
  show ?thesis
    by (simp add: add deleteSale_def f g its Let_def del: filter_append)
qed

lemma deleteSale_addSale:
  assumes fresh: "newId \<notin> id_sale ` set (sales_mem m)"
    and safe: "\<forall>a\<in>set (products_mem m).
        \<bar>stock (heap m a)\<bar> + soldMagnitude (items sale) (id_product (heap m a)) \<le> 2 ^ 53"
  shows "deleteSale newId (addSale newId sale m) = m"
  by (simp add: deleteSale_addSale_heap [OF fresh] fold_restore_deduct [OF safe])

lemma deleteSale_absent:
  "saleId \<notin> id_sale ` set (sales_mem m) \<Longrightarrow> deleteSale saleId m = m"
proof -
  assume "saleId \<notin> id_sale ` set (sales_mem m)"
  then have "find (\<lambda>s. id_sale s = saleId) (sales_mem m) = None"
    by (auto simp: find_None_iff)
  then show ?thesis by (simp add: deleteSale_def)
qed

lemma bitLength_0: "bitLength 0 = 0"
  by (simp add: bitLength.simps)

lemma bitLength_pos: "0 < n \<Longrightarrow> bitLength n = 1 + bitLength (n div 2)"
  by (subst bitLength.simps) simp

lemma roundDouble_tie: "roundDouble 9007199254740993 = 9007199254740992"
  by (simp add: roundDouble_def Let_def bitLength_pos bitLength_0)

lemma adjustFound_absent:
  "productId_item item \<notin> (\<lambda>a. id_product (h a)) ` set refs \<Longrightarrow> adjustFound op refs item h = h"
  by (simp add: adjustFound_def foundObject_None [symmetric])

lemma fold_adjustFound_existing:
  "fold (adjustFound op refs)
     (filter (\<lambda>item. productId_item item \<in> (\<lambda>a. id_product (h a)) ` set refs) its) h
   = fold (adjustFound op refs) its h"
proof (rule ext)
  fix a
  have "filter (\<lambda>item. foundObject refs h (productId_item item) = Some a)
          (filter (\<lambda>item. productId_item item \<in> (\<lambda>a. id_product (h a)) ` set refs) its)
      = filter (\<lambda>item. foundObject refs h (productId_item item) = Some a) its"
    unfolding filter_filter
    by (rule filter_cong) (use foundObject_Some [of refs h] in force)+
  then show "fold (adjustFound op refs)
     (filter (\<lambda>item. productId_item item \<in> (\<lambda>a. id_product (h a)) ` set refs) its) h a
   = fold (adjustFound op refs) its h a"
    by (simp add: fold_adjustFound)
qed

lemma fold_restore_existing_after:
  "fold (restoreStock refs)
     (filter (\<lambda>item. productId_item item \<in> (\<lambda>a. id_product (h a)) ` set refs) its)
     (fold (deductStock refs) its' h)
   = fold (restoreStock refs) its (fold (deductStock refs) its' h)"
  using fold_adjustFound_existing [of jsAdd refs "fold (adjustFound jsSub refs) its' h" its]
  by (simp add: deductStock_adjustFound restoreStock_adjustFound fold_adjustFound_id)

section \<open>Claims on sales\<close>

text \<open>
  Claim C1, as the code has it. Let \<open>newId\<close> be the id \<open>generateId()\<close> gives the sale,
  different from the id of every stored sale, and let the stocks and the quantities be
  integers such that, for every product of the array, the magnitude of its stock and the
  magnitudes of the quantities of the line items with its id are together at most \<open>2^53\<close>.
  Then \<open>deleteSale newId\<close> after \<open>addSale newId sale\<close> gives the state before the \<open>addSale\<close>
  back: every product object has its stock of before, and the sale is gone. \<open>addSale\<close>
  takes, from the stock of the object \<open>findIndex\<close> finds for an id, the quantities of
  the line items with that id, and changes nothing else of an object; \<open>deleteSale\<close> of a
  stored sale adds the quantities of its line items back, when the sums stay within
  \<open>2^53\<close> as well, and removes the sale; \<open>deleteSale\<close> of an id no sale has changes nothing.
\<close>

theorem addSale_deleteSale_restores_stock:
  assumes fresh: "newId \<notin> id_sale ` set (sales_mem m)"
    and safe: "\<forall>a\<in>set (products_mem m).
        \<bar>stock (heap m a)\<bar> + soldMagnitude (items sale) (id_product (heap m a)) \<le> 2 ^ 53"
  shows "deleteSale newId (addSale newId sale m) = m
    \<and> products_mem (addSale newId sale m) = products_mem m
    \<and> (\<forall>a. heap (addSale newId sale m) a =
          (heap m a)\<lparr>stock := stock (heap m a) -
             (if matchedObject m a
              then soldQuantity (items sale) (id_product (heap m a)) else 0)\<rparr>)
    \<and> (\<forall>saleId stored. find (\<lambda>s. id_sale s = saleId) (sales_mem m) = Some stored \<longrightarrow>
          sales_mem (deleteSale saleId m) = filter (\<lambda>s. id_sale s \<noteq> saleId) (sales_mem m)
          \<and> products_mem (deleteSale saleId m) = products_mem m
          \<and> ((\<forall>a\<in>set (products_mem m).
                  \<bar>stock (heap m a) + soldQuantity (items stored) (id_product (heap m a))\<bar>
                    + soldMagnitude (items stored) (id_product (heap m a)) \<le> 2 ^ 53) \<longrightarrow>
               (\<forall>a. heap (deleteSale saleId m) a =
                  (heap m a)\<lparr>stock := stock (heap m a) +
                     (if matchedObject m a
                      then soldQuantity (items stored) (id_product (heap m a)) else 0)\<rparr>)))
    \<and> (\<forall>saleId. saleId \<notin> id_sale ` set (sales_mem m) \<longrightarrow> deleteSale saleId m = m)"
proof -
  have inverse: "deleteSale newId (addSale newId sale m) = m"
    using fresh safe by (rule deleteSale_addSale)
  have refs: "products_mem (addSale newId sale m) = products_mem m"
    by (simp add: addSale_unfold)
  have deducted: "\<forall>a. heap (addSale newId sale m) a =
          (heap m a)\<lparr>stock := stock (heap m a) -
             (if matchedObject m a
              then soldQuantity (items sale) (id_product (heap m a)) else 0)\<rparr>"
    using safe by (simp add: addSale_unfold fold_deduct_at matchedObject_def)
  have restored: "\<forall>saleId stored. find (\<lambda>s. id_sale s = saleId) (sales_mem m) = Some stored \<longrightarrow>
          sales_mem (deleteSale saleId m) = filter (\<lambda>s. id_sale s \<noteq> saleId) (sales_mem m)
          \<and> products_mem (deleteSale saleId m) = products_mem m
          \<and> ((\<forall>a\<in>set (products_mem m).
                  \<bar>stock (heap m a) + soldQuantity (items stored) (id_product (heap m a))\<bar>
                    + soldMagnitude (items stored) (id_product (heap m a)) \<le> 2 ^ 53) \<longrightarrow>
               (\<forall>a. heap (deleteSale saleId m) a =
                  (heap m a)\<lparr>stock := stock (heap m a) +
                     (if matchedObject m a
                      then soldQuantity (items stored) (id_product (heap m a)) else 0)\<rparr>))"
    by (simp add: deleteSale_def Let_def fold_restore_at matchedObject_def)
  have absent: "\<forall>saleId. saleId \<notin> id_sale ` set (sales_mem m) \<longrightarrow> deleteSale saleId m = m"
    by (simp add: deleteSale_absent)
  from inverse refs deducted restored absent show ?thesis by blast
qed


theorem addSale_deleteSale_restores_stock_witness:
  "''s1'' \<notin> id_sale ` set (sales_mem shopMemory)
   \<and> list_all (\<lambda>a. \<bar>stock (heap shopMemory a)\<bar>
         + soldMagnitude (items saleAB) (id_product (heap shopMemory a)) \<le> 2 ^ 53)
       (products_mem shopMemory)
   \<and> products_mem shopMemory = [0, 0, 2]
   \<and> stock (heap shopMemory 0) = 10 \<and> stock (heap shopMemory 2) = 5
   \<and> stock (heap (addSale ''s1'' saleAB shopMemory) 0) = 7
   \<and> stock (heap (addSale ''s1'' saleAB shopMemory) 2) = 3
   \<and> map id_sale (sales_mem (addSale ''s1'' saleAB shopMemory)) = [''s1'']
   \<and> deleteSale ''s1'' (addSale ''s1'' saleAB shopMemory) = shopMemory"
proof -
  have fresh: "''s1'' \<notin> id_sale ` set (sales_mem shopMemory)"
    by (simp add: shopMemory_def)
  have safe_list: "list_all (\<lambda>a. \<bar>stock (heap shopMemory a)\<bar>
         + soldMagnitude (items saleAB) (id_product (heap shopMemory a)) \<le> 2 ^ 53)
       (products_mem shopMemory)"
    by (simp add: shopMemory_def saleAB_def productA_def productB_def soldMagnitude_def)
  then have safe: "\<forall>a\<in>set (products_mem shopMemory).
        \<bar>stock (heap shopMemory a)\<bar>
          + soldMagnitude (items saleAB) (id_product (heap shopMemory a)) \<le> 2 ^ 53"
    by (simp only: list_all_iff)
  note inst = addSale_deleteSale_restores_stock [OF fresh safe]
  from inst have inverse: "deleteSale ''s1'' (addSale ''s1'' saleAB shopMemory) = shopMemory"
    by (rule conjunct1)
  from inst have deducted: "\<forall>a. heap (addSale ''s1'' saleAB shopMemory) a =
          (heap shopMemory a)\<lparr>stock := stock (heap shopMemory a) -
             (if matchedObject shopMemory a
              then soldQuantity (items saleAB) (id_product (heap shopMemory a)) else 0)\<rparr>"
    by blast
  have m0: "matchedObject shopMemory 0" and m1: "matchedObject shopMemory 2"
    by (simp_all add: matchedObject_def foundObject_def shopMemory_def productA_def productB_def)
  have q0: "soldQuantity (items saleAB) (id_product (heap shopMemory 0)) = 3"
    and q1: "soldQuantity (items saleAB) (id_product (heap shopMemory 2)) = 2"
    by (simp_all add: soldQuantity_def shopMemory_def saleAB_def productA_def productB_def)
  have s0: "stock (heap shopMemory 0) = 10" and s1: "stock (heap shopMemory 2) = 5"
    by (simp_all add: shopMemory_def productA_def productB_def)
  have a0: "stock (heap (addSale ''s1'' saleAB shopMemory) 0) = 7"
    using deducted [rule_format, of 0] by (simp add: m0 q0 s0)
  have a1: "stock (heap (addSale ''s1'' saleAB shopMemory) 2) = 3"
    using deducted [rule_format, of 2] by (simp add: m1 q1 s1)
  have refs: "products_mem shopMemory = [0, 0, 2]"
    by (simp add: shopMemory_def)
  have ids: "map id_sale (sales_mem (addSale ''s1'' saleAB shopMemory)) = [''s1'']"
    by (simp add: addSale_unfold shopMemory_def saleAB_def)
  from fresh safe_list refs s0 s1 a0 a1 ids inverse show ?thesis by blast
qed

text \<open>
  Claim C1 as it is stated fails: with a stock of \<open>2^53 + 2\<close> and a sale of one unit, the
  difference \<open>2^53 + 1\<close> is no double and is rounded to \<open>2^53\<close>, and so is the sum when the
  sale is deleted; the stock after the two calls is not the stock of before.
\<close>

theorem addSale_deleteSale_restores_stock_counterexample:
  "''s1'' \<notin> id_sale ` set (sales_mem bigMemory)
   \<and> stock (heap bigMemory 0) = 9007199254740994
   \<and> stock (heap (addSale ''s1'' saleOne bigMemory) 0) = 9007199254740992
   \<and> stock (heap (deleteSale ''s1'' (addSale ''s1'' saleOne bigMemory)) 0) = 9007199254740992
   \<and> deleteSale ''s1'' (addSale ''s1'' saleOne bigMemory) \<noteq> bigMemory"
proof -
  have fresh: "''s1'' \<notin> id_sale ` set (sales_mem bigMemory)"
    by (simp add: bigMemory_def)
  have before: "stock (heap bigMemory 0) = 9007199254740994"
    by (simp add: bigMemory_def)
  have added: "stock (heap (addSale ''s1'' saleOne bigMemory) 0) = 9007199254740992"
    by (simp add: addSale_unfold bigMemory_def saleOne_def productA_def deductStock_def
        jsSub_def roundDouble_tie)
  have deleted:
    "stock (heap (deleteSale ''s1'' (addSale ''s1'' saleOne bigMemory)) 0) = 9007199254740992"
    by (simp add: deleteSale_addSale_heap [OF fresh])
      (simp add: bigMemory_def saleOne_def productA_def deductStock_def restoreStock_def
        jsSub_def jsAdd_def roundDouble_tie)
  from before deleted
  have "stock (heap (deleteSale ''s1'' (addSale ''s1'' saleOne bigMemory)) 0)
      \<noteq> stock (heap bigMemory 0)"
    by simp
  then have changed: "deleteSale ''s1'' (addSale ''s1'' saleOne bigMemory) \<noteq> bigMemory"
    by auto
  from fresh before added deleted changed show ?thesis by blast
qed

text \<open>
  Claim C10, as the code has it. A line item whose \<open>productId\<close> is the id of no product of
  the array is skipped by both loops: neither \<open>deductStock\<close> nor \<open>restoreStock\<close> changes an
  object for it, and there is no error branch. The objects after \<open>addSale\<close> are those the
  items with an existing product give, while the stored sale keeps the full list of
  items; \<open>deleteSale\<close> restores from the items with an existing product in the same way.
  So dangling references change nothing of \<open>addSale\<close> followed by \<open>deleteSale\<close>: the state
  after the two calls is the one the sale without its dangling items gives, and it is the
  state of before when the stocks and the quantities are integers within the bound of
  C1.
\<close>

theorem dangling_items_skipped:
  "(productId_item item \<notin> (\<lambda>a. id_product (h a)) ` set refs \<longrightarrow>
      deductStock refs item h = h \<and> restoreStock refs item h = h)
   \<and> heap (addSale newId sale m) =
       fold (deductStock (products_mem m)) (filter (existingProduct m) (items sale)) (heap m)
   \<and> products_mem (addSale newId sale m) = products_mem m
   \<and> butlast (sales_mem (addSale newId sale m)) = sales_mem m
   \<and> id_sale (last (sales_mem (addSale newId sale m))) = newId
   \<and> items (last (sales_mem (addSale newId sale m))) = items sale
   \<and> (find (\<lambda>s. id_sale s = saleId) (sales_mem m) = Some stored \<longrightarrow>
        heap (deleteSale saleId m) =
          fold (restoreStock (products_mem m)) (filter (existingProduct m) (items stored))
            (heap m))
   \<and> (newId \<notin> id_sale ` set (sales_mem m) \<longrightarrow>
        deleteSale newId (addSale newId sale m) =
          deleteSale newId
            (addSale newId (sale\<lparr>items := filter (existingProduct m) (items sale)\<rparr>) m))
   \<and> (newId \<notin> id_sale ` set (sales_mem m)
        \<and> (\<forall>a\<in>set (products_mem m).
              \<bar>stock (heap m a)\<bar> + soldMagnitude (items sale) (id_product (heap m a))
                \<le> 2 ^ 53) \<longrightarrow>
        deleteSale newId (addSale newId sale m) = m)"
proof -
  have ex: "existingProduct m
      = (\<lambda>item. productId_item item \<in> (\<lambda>a. id_product (heap m a)) ` set (products_mem m))"
    by (rule ext) (simp add: existingProduct_def)
  have step: "productId_item item \<notin> (\<lambda>a. id_product (h a)) ` set refs \<longrightarrow>
      deductStock refs item h = h \<and> restoreStock refs item h = h"
    by (simp add: deductStock_adjustFound restoreStock_adjustFound adjustFound_absent)
  have add: "heap (addSale newId sale m) =
       fold (deductStock (products_mem m)) (filter (existingProduct m) (items sale)) (heap m)"
    by (simp add: addSale_unfold ex deductStock_adjustFound fold_adjustFound_existing)
  have kept: "products_mem (addSale newId sale m) = products_mem m
      \<and> butlast (sales_mem (addSale newId sale m)) = sales_mem m
      \<and> id_sale (last (sales_mem (addSale newId sale m))) = newId
      \<and> items (last (sales_mem (addSale newId sale m))) = items sale"
    by (simp add: addSale_unfold)
  have del: "find (\<lambda>s. id_sale s = saleId) (sales_mem m) = Some stored \<longrightarrow>
        heap (deleteSale saleId m) =
          fold (restoreStock (products_mem m)) (filter (existingProduct m) (items stored))
            (heap m)"
    by (simp add: deleteSale_def Let_def ex restoreStock_adjustFound fold_adjustFound_existing)
  have same: "newId \<notin> id_sale ` set (sales_mem m) \<longrightarrow>
        deleteSale newId (addSale newId sale m) =
          deleteSale newId
            (addSale newId (sale\<lparr>items := filter (existingProduct m) (items sale)\<rparr>) m)"
  proof
    assume fresh: "newId \<notin> id_sale ` set (sales_mem m)"
    have "fold (restoreStock (products_mem m)) (filter (existingProduct m) (items sale))
            (fold (deductStock (products_mem m)) (filter (existingProduct m) (items sale)) (heap m))
        = fold (restoreStock (products_mem m)) (items sale)
            (fold (deductStock (products_mem m)) (items sale) (heap m))"
      by (simp add: ex fold_restore_existing_after)
        (simp add: deductStock_adjustFound fold_adjustFound_existing)
    then show "deleteSale newId (addSale newId sale m) =
          deleteSale newId
            (addSale newId (sale\<lparr>items := filter (existingProduct m) (items sale)\<rparr>) m)"
      by (simp add: deleteSale_addSale_heap [OF fresh])
  qed
  have inv: "newId \<notin> id_sale ` set (sales_mem m)
        \<and> (\<forall>a\<in>set (products_mem m).
              \<bar>stock (heap m a)\<bar> + soldMagnitude (items sale) (id_product (heap m a))
                \<le> 2 ^ 53) \<longrightarrow>
        deleteSale newId (addSale newId sale m) = m"
    by (simp add: deleteSale_addSale)
  from step add kept del same inv show ?thesis by blast
qed


theorem dangling_items_skipped_witness:
  "productId_item \<lparr>productId_item = ''gone'', quantity_item = 4, price = 7\<rparr>
      \<notin> (\<lambda>a. id_product (heap shopMemory a)) ` set (products_mem shopMemory)
   \<and> deductStock (products_mem shopMemory)
        \<lparr>productId_item = ''gone'', quantity_item = 4, price = 7\<rparr> (heap shopMemory)
       = heap shopMemory
   \<and> stock (heap (addSale ''s2'' saleDangling shopMemory) 0) = 7
   \<and> stock (heap (addSale ''s2'' saleDangling shopMemory) 2) = 5
   \<and> map productId_item (items (last (sales_mem (addSale ''s2'' saleDangling shopMemory))))
       = [''A'', ''gone'']
   \<and> ''s2'' \<notin> id_sale ` set (sales_mem shopMemory)
   \<and> list_all (\<lambda>a. \<bar>stock (heap shopMemory a)\<bar>
         + soldMagnitude (items saleDangling) (id_product (heap shopMemory a)) \<le> 2 ^ 53)
       (products_mem shopMemory)
   \<and> deleteSale ''s2'' (addSale ''s2'' saleDangling shopMemory) = shopMemory"
proof -
  let ?gone = "\<lparr>productId_item = ''gone'', quantity_item = 4, price = 7\<rparr>"
  have dangling: "productId_item ?gone
      \<notin> (\<lambda>a. id_product (heap shopMemory a)) ` set (products_mem shopMemory)"
    by (simp add: shopMemory_def productA_def productB_def)
  have fresh: "''s2'' \<notin> id_sale ` set (sales_mem shopMemory)"
    by (simp add: shopMemory_def)
  have safe_list: "list_all (\<lambda>a. \<bar>stock (heap shopMemory a)\<bar>
         + soldMagnitude (items saleDangling) (id_product (heap shopMemory a)) \<le> 2 ^ 53)
       (products_mem shopMemory)"
    by (simp add: shopMemory_def saleDangling_def productA_def productB_def soldMagnitude_def)
  then have safe: "\<forall>a\<in>set (products_mem shopMemory).
        \<bar>stock (heap shopMemory a)\<bar>
          + soldMagnitude (items saleDangling) (id_product (heap shopMemory a)) \<le> 2 ^ 53"
    by (simp only: list_all_iff)
  note inst = dangling_items_skipped [of ?gone "heap shopMemory" "products_mem shopMemory"
      "''s2''" saleDangling shopMemory]
  from inst dangling
  have skipped: "deductStock (products_mem shopMemory) ?gone (heap shopMemory) = heap shopMemory"
    by blast
  from inst
  have stored: "items (last (sales_mem (addSale ''s2'' saleDangling shopMemory)))
      = items saleDangling"
    by blast
  then have full:
    "map productId_item (items (last (sales_mem (addSale ''s2'' saleDangling shopMemory))))
       = [''A'', ''gone'']"
    by (simp add: saleDangling_def)
  from inst fresh safe
  have inverse: "deleteSale ''s2'' (addSale ''s2'' saleDangling shopMemory) = shopMemory"
    by blast
  have a0: "stock (heap (addSale ''s2'' saleDangling shopMemory) 0) = 7"
    and a2: "stock (heap (addSale ''s2'' saleDangling shopMemory) 2) = 5"
    by (simp_all add: addSale_unfold shopMemory_def saleDangling_def productA_def productB_def
        deductStock_def jsSub_def roundDouble_def)
  from dangling skipped a0 a2 full fresh safe_list inverse show ?thesis by blast
qed

text \<open>
  Claim C10 as it is stated fails: with a stock of \<open>2^53 + 2\<close> and a sale of one unit
  whose other line item has no product, the stock after \<open>addSale\<close> and \<open>deleteSale\<close> is
  \<open>2^53\<close>, not the stock of before.
\<close>

theorem dangling_items_skipped_counterexample:
  "\<not> existingProduct bigMemory (hd (items saleOneDangling))
   \<and> ''s2'' \<notin> id_sale ` set (sales_mem bigMemory)
   \<and> stock (heap bigMemory 0) = 9007199254740994
   \<and> stock (heap (deleteSale ''s2'' (addSale ''s2'' saleOneDangling bigMemory)) 0)
       = 9007199254740992"
proof -
  have dangling: "\<not> existingProduct bigMemory (hd (items saleOneDangling))"
    by (simp add: existingProduct_def bigMemory_def saleOneDangling_def productA_def)
  have fresh: "''s2'' \<notin> id_sale ` set (sales_mem bigMemory)"
    by (simp add: bigMemory_def)
  have before: "stock (heap bigMemory 0) = 9007199254740994"
    by (simp add: bigMemory_def)
  have deleted:
    "stock (heap (deleteSale ''s2'' (addSale ''s2'' saleOneDangling bigMemory)) 0)
       = 9007199254740992"
    by (simp add: deleteSale_addSale_heap [OF fresh])
      (simp add: bigMemory_def saleOneDangling_def productA_def deductStock_def restoreStock_def
        jsSub_def jsAdd_def roundDouble_tie)
  from dangling fresh before deleted show ?thesis by blast
qed

section \<open>Claims on products and purchases\<close>

text \<open>
  Claim C4. \<open>addProduct\<close> appends the product under the generated id. When the product has
  a supplier id (present and not empty, as the test \<open>newProduct.supplierId &&\<close> asks),
  a stock above zero and a buying price above zero, it appends one purchase, dated today,
  of quantity the stock, unit cost the buying price and total cost their product; in every
  other case the purchases stay as they are. Nothing else of the state changes.
\<close>

theorem addProduct_purchase:
  "(supplierId_product product = Some sid \<and> sid \<noteq> [] \<and> stock product > 0
      \<and> buyingPrice product > 0 \<longrightarrow>
      addProduct newId purchaseId today product st =
        st\<lparr>products := products st @ [product\<lparr>id_product := newId\<rparr>],
           purchases := purchases st @
             [\<lparr>id_purchase = purchaseId, date_purchase = today, supplierId_purchase = sid,
               productId_purchase = newId, quantity_purchase = stock product,
               unitCost = buyingPrice product,
               totalCost = stock product * buyingPrice product\<rparr>]\<rparr>)
   \<and> (supplierId_product product = None \<or> supplierId_product product = Some []
        \<or> stock product \<le> 0 \<or> buyingPrice product \<le> 0 \<longrightarrow>
      addProduct newId purchaseId today product st =
        st\<lparr>products := products st @ [product\<lparr>id_product := newId\<rparr>]\<rparr>)
   \<and> (length (purchases (addProduct newId purchaseId today product st))
        = (if (\<exists>s. supplierId_product product = Some s \<and> s \<noteq> []) \<and> stock product > 0
              \<and> buyingPrice product > 0
           then length (purchases st) + 1 else length (purchases st)))"
  by (auto simp: addProduct_def Let_def split: option.splits)

theorem addProduct_purchase_witness:
  "supplierId_product shirt = Some ''S1'' \<and> ''S1'' \<noteq> [] \<and> stock shirt > 0 \<and> buyingPrice shirt > 0
   \<and> map id_product (products (addProduct ''p1'' ''u1'' ''2024-01-01'' shirt emptyState)) = [''p1'']
   \<and> purchases (addProduct ''p1'' ''u1'' ''2024-01-01'' shirt emptyState) =
       [\<lparr>id_purchase = ''u1'', date_purchase = ''2024-01-01'', supplierId_purchase = ''S1'',
         productId_purchase = ''p1'', quantity_purchase = 10, unitCost = 5, totalCost = 50\<rparr>]
   \<and> supplierId_product productB = None
   \<and> purchases (addProduct ''p2'' ''u2'' ''2024-01-01'' productB emptyState) = []"
  using addProduct_purchase [of shirt "''S1''" "''p1''" "''u1''" "''2024-01-01''" emptyState]
    addProduct_purchase [of productB "''S1''" "''p2''" "''u2''" "''2024-01-01''" emptyState]
  by (simp add: example_defs)

text \<open>
  Claim C5. \<open>updateProduct\<close> puts the updated record in the place of every product with
  its id. With \<open>oldStock\<close> the stock of the first product with that id before the call
  (zero when there is none), it appends one purchase when the updated stock exceeds
  \<open>oldStock\<close> and the updated product has a supplier id and a buying price above zero: its
  quantity is the difference, not the new stock, its unit cost the buying price and its
  total cost their product. Otherwise no purchase is made. Nothing else changes.
\<close>

theorem updateProduct_purchase:
  assumes old: "oldStock =
      (case find (\<lambda>p. id_product p = id_product updated) (products st) of
         Some previous \<Rightarrow> stock previous | None \<Rightarrow> 0)"
  shows "(supplierId_product updated = Some sid \<and> sid \<noteq> [] \<and> stock updated - oldStock > 0
      \<and> buyingPrice updated > 0 \<longrightarrow>
      updateProduct purchaseId today updated st =
        st\<lparr>products := map (\<lambda>p. if id_product p = id_product updated then updated else p)
                          (products st),
           purchases := purchases st @
             [\<lparr>id_purchase = purchaseId, date_purchase = today, supplierId_purchase = sid,
               productId_purchase = id_product updated,
               quantity_purchase = stock updated - oldStock,
               unitCost = buyingPrice updated,
               totalCost = (stock updated - oldStock) * buyingPrice updated\<rparr>]\<rparr>)
   \<and> (supplierId_product updated = None \<or> supplierId_product updated = Some []
        \<or> stock updated - oldStock \<le> 0 \<or> buyingPrice updated \<le> 0 \<longrightarrow>
      updateProduct purchaseId today updated st =
        st\<lparr>products := map (\<lambda>p. if id_product p = id_product updated then updated else p)
                          (products st)\<rparr>)"
  using old by (auto simp: updateProduct_def Let_def split: option.splits)

theorem updateProduct_purchase_witness:
  "(10::int) = (case find (\<lambda>p. id_product p = id_product (productA\<lparr>stock := 15\<rparr>))
                  (products shopState) of Some previous \<Rightarrow> stock previous | None \<Rightarrow> 0)
   \<and> map stock (products (updateProduct ''u1'' ''2024-01-01'' (productA\<lparr>stock := 15\<rparr>) shopState))
       = [15, 5]
   \<and> purchases (updateProduct ''u1'' ''2024-01-01'' (productA\<lparr>stock := 15\<rparr>) shopState) =
       [\<lparr>id_purchase = ''u1'', date_purchase = ''2024-01-01'', supplierId_purchase = ''S1'',
         productId_purchase = ''A'', quantity_purchase = 5, unitCost = 5, totalCost = 25\<rparr>]
   \<and> purchases (updateProduct ''u1'' ''2024-01-01'' (productA\<lparr>stock := 10\<rparr>) shopState) = []"
proof -
  have old: "(10::int) = (case find (\<lambda>p. id_product p = id_product (productA\<lparr>stock := 15\<rparr>))
                  (products shopState) of Some previous \<Rightarrow> stock previous | None \<Rightarrow> 0)"
    by (simp add: example_defs)
  have old': "(10::int) = (case find (\<lambda>p. id_product p = id_product (productA\<lparr>stock := 10\<rparr>))
                  (products shopState) of Some previous \<Rightarrow> stock previous | None \<Rightarrow> 0)"
    by (simp add: example_defs)
  show ?thesis
    using old updateProduct_purchase [OF old, of "''S1''" "''u1''" "''2024-01-01''"]
      updateProduct_purchase [OF old', of "''S1''" "''u1''" "''2024-01-01''"]
    by (simp add: example_defs)
qed

lemma filter_append_new:
  "\<forall>x\<in>set xs. f x \<noteq> a \<Longrightarrow> f y = a \<Longrightarrow> filter (\<lambda>x. f x \<noteq> a) (xs @ [y]) = xs"
  by (induction xs) auto

text \<open>
  Claim C9. Let \<open>newId\<close> be the id \<open>generateId()\<close> gives the product, different from the id
  of every stored product. Then \<open>deleteProduct newId\<close> after \<open>addProduct\<close> gives the
  products of before. The purchases are those after the \<open>addProduct\<close>: a purchase it
  made stays. No other part of the state differs from the state before.
\<close>

theorem addProduct_deleteProduct:
  assumes fresh: "newId \<notin> id_product ` set (products st)"
  shows "products (deleteProduct newId (addProduct newId purchaseId today product st)) = products st
   \<and> purchases (deleteProduct newId (addProduct newId purchaseId today product st))
       = purchases (addProduct newId purchaseId today product st)
   \<and> deleteProduct newId (addProduct newId purchaseId today product st)
       = st\<lparr>purchases := purchases (addProduct newId purchaseId today product st)\<rparr>
   \<and> (supplierId_product product = Some sid \<and> sid \<noteq> [] \<and> stock product > 0
        \<and> buyingPrice product > 0 \<longrightarrow>
      purchases (deleteProduct newId (addProduct newId purchaseId today product st)) =
        purchases st @
          [\<lparr>id_purchase = purchaseId, date_purchase = today, supplierId_purchase = sid,
            productId_purchase = newId, quantity_purchase = stock product,
            unitCost = buyingPrice product,
            totalCost = stock product * buyingPrice product\<rparr>])"
proof -
  from fresh have nf: "\<forall>p\<in>set (products st). id_product p \<noteq> newId" by auto
  have f: "filter (\<lambda>p. id_product p \<noteq> newId) (products st @ [product\<lparr>id_product := newId\<rparr>])
      = products st"
    using filter_append_new [OF nf, of "product\<lparr>id_product := newId\<rparr>"] by simp
  show ?thesis
    using f by (auto simp: addProduct_def deleteProduct_def Let_def split: option.splits
        simp del: filter_append)
qed

theorem addProduct_deleteProduct_witness:
  "''p1'' \<notin> id_product ` set (products shopState)
   \<and> products (deleteProduct ''p1'' (addProduct ''p1'' ''u1'' ''2024-01-01'' shirt shopState))
       = products shopState
   \<and> purchases shopState = []
   \<and> purchases (deleteProduct ''p1'' (addProduct ''p1'' ''u1'' ''2024-01-01'' shirt shopState)) =
       [\<lparr>id_purchase = ''u1'', date_purchase = ''2024-01-01'', supplierId_purchase = ''S1'',
         productId_purchase = ''p1'', quantity_purchase = 10, unitCost = 5, totalCost = 50\<rparr>]"
proof -
  have fresh: "''p1'' \<notin> id_product ` set (products shopState)"
    by (simp add: example_defs)
  have none: "purchases shopState = []"
    by (simp add: example_defs)
  have kept: "purchases (deleteProduct ''p1'' (addProduct ''p1'' ''u1'' ''2024-01-01'' shirt shopState)) =
       [\<lparr>id_purchase = ''u1'', date_purchase = ''2024-01-01'', supplierId_purchase = ''S1'',
         productId_purchase = ''p1'', quantity_purchase = 10, unitCost = 5, totalCost = 50\<rparr>]"
    by (simp add: example_defs addProduct_def deleteProduct_def)
  show ?thesis
    using fresh none kept
      addProduct_deleteProduct [OF fresh, of "''u1''" "''2024-01-01''" shirt "''S1''"]
    by simp
qed

section \<open>Lemmas on the category set\<close>

lemma last_dropWhile: "dropWhile P xs \<noteq> [] \<Longrightarrow> last (dropWhile P xs) = last xs"
  by (induction xs) (auto split: if_splits)

lemma dropWhile_hd_id: "xs \<noteq> [] \<Longrightarrow> \<not> P (hd xs) \<Longrightarrow> dropWhile P xs = xs"
  by (cases xs) auto

lemma trim_idem: "trim (trim s) = trim s"
proof (cases "trim s = []")
  case True
  have "trim [] = []" by (simp add: trim_def)
  with True show ?thesis by simp
next
  case False
  define t where "t = dropWhile isWhitespace s"
  define d where "d = dropWhile isWhitespace (rev t)"
  have ts: "trim s = rev d" by (simp add: trim_def d_def t_def)
  with False have d: "d \<noteq> []" by simp
  then have rt: "rev t \<noteq> []" by (auto simp: d_def)
  then have t: "t \<noteq> []" by simp
  have hd_t: "\<not> isWhitespace (hd t)"
    using t unfolding t_def by (rule hd_dropWhile)
  have hd_d: "\<not> isWhitespace (hd d)"
    using d unfolding d_def by (rule hd_dropWhile)
  have "last d = last (rev t)"
    using d unfolding d_def by (rule last_dropWhile)
  also have "\<dots> = hd t" using t by (simp add: last_rev)
  finally have "hd (rev d) = hd t" using d by (simp add: hd_rev)
  with hd_t have a: "dropWhile isWhitespace (rev d) = rev d"
    using d by (simp add: dropWhile_hd_id)
  have b: "dropWhile isWhitespace d = d"
    using d hd_d by (rule dropWhile_hd_id)
  have "trim (rev d) = rev d"
    by (simp add: trim_def a b)
  then show ?thesis by (simp add: ts)
qed

lemma map_rename_same_key:
  "f old = f new \<Longrightarrow> map f (map (\<lambda>c. if c = old then new else c) cs) = map f cs"
  by (induction cs) auto

lemma distinct_rename_new_key:
  "distinct (map f cs) \<Longrightarrow> f new \<notin> set (map f cs) \<Longrightarrow>
   distinct (map f (map (\<lambda>c. if c = old then new else c) cs))"
proof (induction cs)
  case Nil
  show ?case by simp
next
  case (Cons c cs)
  then have IH: "distinct (map f (map (\<lambda>c. if c = old then new else c) cs))" by simp
  have notin: "f c \<notin> f ` set cs" and newc: "f new \<noteq> f c" and newcs: "f new \<notin> f ` set cs"
    using Cons.prems by auto
  have "\<forall>x\<in>set cs. f (if x = old then new else x) \<noteq> f (if c = old then new else c)"
    using notin newc newcs by (metis (full_types) image_eqI)
  then have "f (if c = old then new else c) \<notin> set (map f (map (\<lambda>c. if c = old then new else c) cs))"
    by (auto simp del: map_map)
  with IH show ?case by (simp del: map_map)
qed

lemma uniqueNames_addCategory:
  "uniqueNames (categories st) \<Longrightarrow> uniqueNames (categories (snd (snd (addCategory name st))))"
  by (simp add: addCategory_def uniqueNames_def Let_def)

lemma uniqueNames_updateCategory:
  "uniqueNames (categories st) \<Longrightarrow>
   uniqueNames (categories (snd (snd (updateCategory oldName newName st))))"
  by (auto simp: updateCategory_def uniqueNames_def Let_def map_rename_same_key
      intro: distinct_rename_new_key simp del: map_map)

lemma uniqueNames_handleAddCategory:
  "uniqueNames (categories st) \<Longrightarrow> uniqueNames (categories (snd (handleAddCategory name st)))"
  using uniqueNames_addCategory [of st name] by (simp add: handleAddCategory_def)

lemma uniqueNames_runCall:
  "uniqueNames (categories st) \<Longrightarrow> uniqueNames (categories (runCall call st))"
  by (cases call)
    (simp_all add: uniqueNames_addCategory uniqueNames_updateCategory uniqueNames_handleAddCategory)

lemma uniqueNames_fold:
  "uniqueNames (categories st) \<Longrightarrow> uniqueNames (categories (fold runCall calls st))"
  by (induction calls arbitrary: st) (simp_all add: uniqueNames_runCall)

lemma noEmptyName_addCategory:
  "noEmptyName (categories st) \<Longrightarrow> trim name \<noteq> [] \<Longrightarrow>
   noEmptyName (categories (snd (snd (addCategory name st))))"
  by (simp add: addCategory_def noEmptyName_def Let_def trim_idem)

lemma noEmptyName_updateCategory:
  "noEmptyName (categories st) \<Longrightarrow>
   noEmptyName (categories (snd (snd (updateCategory oldName newName st))))"
  by (auto simp: updateCategory_def noEmptyName_def Let_def trim_idem list_all_iff)

lemma noEmptyName_handleAddCategory:
  "noEmptyName (categories st) \<Longrightarrow> noEmptyName (categories (snd (handleAddCategory name st)))"
  using noEmptyName_addCategory [of st name] by (simp add: handleAddCategory_def)

lemma noEmptyName_runCall:
  "noEmptyName (categories st) \<Longrightarrow> nonEmptyArgument call \<Longrightarrow>
   noEmptyName (categories (runCall call st))"
  by (cases call)
    (simp_all add: noEmptyName_addCategory noEmptyName_updateCategory noEmptyName_handleAddCategory)

lemma noEmptyName_fold:
  "noEmptyName (categories st) \<Longrightarrow> list_all nonEmptyArgument calls \<Longrightarrow>
   noEmptyName (categories (fold runCall calls st))"
  by (induction calls arbitrary: st) (simp_all add: noEmptyName_runCall)

section \<open>Claims on categories\<close>

text \<open>
  Claim C3, as the code has it. After any sequence of calls of \<open>addCategory\<close>, of
  \<open>handleAddCategory\<close> (the form's guarded call of \<open>addCategory\<close>) and of \<open>updateCategory\<close>
  the category names are pairwise different when compared in lower case, if they were
  before. No name is empty after trimming, if none was before and every direct call of
  \<open>addCategory\<close> in the sequence has an argument that is not empty after trimming:
  \<open>addCategory\<close> itself makes no such test, the form makes it before the call.
  \<open>addCategory\<close> rejects a name that is there already in some case, \<open>updateCategory\<close>
  rejects a new name that is empty after trimming and one that is the name, in some case,
  of a category other than the old one; a rejected call changes nothing.
\<close>

theorem category_invariant:
  assumes unique: "uniqueNames (categories st)"
  shows "uniqueNames (categories (runCalls calls st))
   \<and> (noEmptyName (categories st) \<and> list_all nonEmptyArgument calls \<longrightarrow>
        noEmptyName (categories (runCalls calls st)))
   \<and> (toLowerCase (trim name) \<in> set (map toLowerCase (categories st)) \<longrightarrow>
        addCategory name st = (False, CategoryExists (trim name), st))
   \<and> (trim name = [] \<longrightarrow> handleAddCategory name st = (CategoryNameEmpty, st))
   \<and> (trim newName = [] \<longrightarrow>
        updateCategory oldName newName st = (False, CategoryNameEmpty, st))
   \<and> (trim newName \<noteq> [] \<and> toLowerCase oldName \<noteq> toLowerCase (trim newName)
        \<and> toLowerCase (trim newName) \<in> set (map toLowerCase (categories st)) \<longrightarrow>
        updateCategory oldName newName st = (False, CategoryExists (trim newName), st))"
proof -
  have u: "uniqueNames (categories (runCalls calls st))"
    using unique by (simp add: runCalls_def uniqueNames_fold)
  have n: "noEmptyName (categories st) \<and> list_all nonEmptyArgument calls \<longrightarrow>
        noEmptyName (categories (runCalls calls st))"
    by (simp add: runCalls_def noEmptyName_fold)
  have a: "toLowerCase (trim name) \<in> set (map toLowerCase (categories st)) \<longrightarrow>
        addCategory name st = (False, CategoryExists (trim name), st)"
    by (simp add: addCategory_def Let_def)
  have h: "trim name = [] \<longrightarrow> handleAddCategory name st = (CategoryNameEmpty, st)"
    by (simp add: handleAddCategory_def)
  have e: "trim newName = [] \<longrightarrow>
        updateCategory oldName newName st = (False, CategoryNameEmpty, st)"
    by (simp add: updateCategory_def Let_def)
  have d: "trim newName \<noteq> [] \<and> toLowerCase oldName \<noteq> toLowerCase (trim newName)
        \<and> toLowerCase (trim newName) \<in> set (map toLowerCase (categories st)) \<longrightarrow>
        updateCategory oldName newName st = (False, CategoryExists (trim newName), st)"
    by (simp add: updateCategory_def Let_def)
  from u n a h e d show ?thesis by blast
qed

theorem category_invariant_witness:
  "uniqueNames (categories shopState) \<and> noEmptyName (categories shopState)
   \<and> list_all nonEmptyArgument
       [AddCategory '' Hats '', HandleAddCategory ''  '', UpdateCategory ''Shoes'' ''Boots'',
        AddCategory ''boots'']
   \<and> categories (runCalls
       [AddCategory '' Hats '', HandleAddCategory ''  '', UpdateCategory ''Shoes'' ''Boots'',
        AddCategory ''boots''] shopState) = [''Clothing'', ''Boots'', ''Hats'']
   \<and> uniqueNames (categories (runCalls
       [AddCategory '' Hats '', HandleAddCategory ''  '', UpdateCategory ''Shoes'' ''Boots'',
        AddCategory ''boots''] shopState))
   \<and> noEmptyName (categories (runCalls
       [AddCategory '' Hats '', HandleAddCategory ''  '', UpdateCategory ''Shoes'' ''Boots'',
        AddCategory ''boots''] shopState))
   \<and> toLowerCase (trim ''shoes '') \<in> set (map toLowerCase (categories shopState))
   \<and> addCategory ''shoes '' shopState = (False, CategoryExists ''shoes'', shopState)"
proof -
  have unique: "uniqueNames (categories shopState)"
    by (simp add: example_defs uniqueNames_def toLowerCase_def)
  have nonempty: "noEmptyName (categories shopState)"
    by (simp add: example_defs noEmptyName_def trim_def isWhitespace_def)
  have args: "list_all nonEmptyArgument
       [AddCategory '' Hats '', HandleAddCategory ''  '', UpdateCategory ''Shoes'' ''Boots'',
        AddCategory ''boots'']"
    by (simp add: trim_def isWhitespace_def)
  have tr: "trim ''shoes '' = ''shoes''"
    by (simp add: trim_def isWhitespace_def)
  have dup: "toLowerCase (trim ''shoes '') \<in> set (map toLowerCase (categories shopState))"
    by (simp add: tr) (simp add: example_defs toLowerCase_def)
  have run: "categories (runCalls
       [AddCategory '' Hats '', HandleAddCategory ''  '', UpdateCategory ''Shoes'' ''Boots'',
        AddCategory ''boots''] shopState) = [''Clothing'', ''Boots'', ''Hats'']"
    by code_simp
  note inv = category_invariant [OF unique, of
        "[AddCategory '' Hats '', HandleAddCategory ''  '', UpdateCategory ''Shoes'' ''Boots'',
          AddCategory ''boots'']" "''shoes ''"]
  from inv have u: "uniqueNames (categories (runCalls
       [AddCategory '' Hats '', HandleAddCategory ''  '', UpdateCategory ''Shoes'' ''Boots'',
        AddCategory ''boots''] shopState))"
    by (rule conjunct1)
  from inv nonempty args have n: "noEmptyName (categories (runCalls
       [AddCategory '' Hats '', HandleAddCategory ''  '', UpdateCategory ''Shoes'' ''Boots'',
        AddCategory ''boots''] shopState))"
    by blast
  from inv dup have "addCategory ''shoes '' shopState
      = (False, CategoryExists (trim ''shoes ''), shopState)"
    by blast
  then have a: "addCategory ''shoes '' shopState = (False, CategoryExists ''shoes'', shopState)"
    by (simp only: tr)
  from unique nonempty args run u n dup a show ?thesis
    by blast
qed

text \<open>
  Claim C3 as it is stated fails: on the empty category set, which satisfies the
  invariant, \<open>addCategory\<close> with a blank name succeeds and stores the empty name.
\<close>

theorem category_invariant_counterexample:
  "uniqueNames (categories emptyState) \<and> noEmptyName (categories emptyState)
   \<and> fst (addCategory ''  '' emptyState)
   \<and> categories (runCalls [AddCategory ''  ''] emptyState) = [[]]
   \<and> \<not> noEmptyName (categories (runCalls [AddCategory ''  ''] emptyState))"
  by (simp add: runCalls_def example_defs addCategory_def uniqueNames_def noEmptyName_def
      trim_def isWhitespace_def toLowerCase_def)

text \<open>
  Claim C6, as the code has it. After a successful \<open>updateCategory oldName newName\<close> every
  product whose category was \<open>oldName\<close> has the trimmed new name as its category, every
  other product is as it was, every category entry equal to \<open>oldName\<close> is the trimmed new
  name, and nothing else of the state differs; both collections change in the one call.
  No product has the category \<open>oldName\<close> any more provided the trimmed new name is not
  \<open>oldName\<close> itself: renaming a category to its own name succeeds too.
\<close>

theorem updateCategory_cascade:
  assumes ok: "fst (updateCategory oldName newName st)"
  shows "snd (snd (updateCategory oldName newName st)) =
       st\<lparr>products := map (\<lambda>p. if category p = oldName then p\<lparr>category := trim newName\<rparr> else p)
                         (products st),
          categories := map (\<lambda>c. if c = oldName then trim newName else c) (categories st)\<rparr>
   \<and> length (products (snd (snd (updateCategory oldName newName st)))) = length (products st)
   \<and> (\<forall>j < length (products st).
        products (snd (snd (updateCategory oldName newName st))) ! j =
          (if category (products st ! j) = oldName
           then (products st ! j)\<lparr>category := trim newName\<rparr> else products st ! j))
   \<and> (trim newName \<noteq> oldName \<longrightarrow>
        (\<forall>p \<in> set (products (snd (snd (updateCategory oldName newName st)))).
           category p \<noteq> oldName))
   \<and> trim newName \<noteq> []
   \<and> fst (snd (updateCategory oldName newName st)) = CategoryUpdated"
  using ok by (auto simp: updateCategory_def Let_def split: if_splits)

theorem updateCategory_cascade_witness:
  "fst (updateCategory ''Shoes'' '' Boots '' shopState)
   \<and> trim '' Boots '' \<noteq> ''Shoes''
   \<and> map category (products (snd (snd (updateCategory ''Shoes'' '' Boots '' shopState))))
       = [''Clothing'', ''Boots'']
   \<and> categories (snd (snd (updateCategory ''Shoes'' '' Boots '' shopState)))
       = [''Clothing'', ''Boots'']"
proof -
  have tr: "trim '' Boots '' = ''Boots''"
    by (simp add: trim_def isWhitespace_def)
  have ok: "fst (updateCategory ''Shoes'' '' Boots '' shopState)"
    by (simp add: updateCategory_def tr Let_def) (simp add: example_defs toLowerCase_def)
  from updateCategory_cascade [OF ok]
  have eq: "snd (snd (updateCategory ''Shoes'' '' Boots '' shopState)) =
       shopState\<lparr>products := map (\<lambda>p. if category p = ''Shoes''
                                        then p\<lparr>category := trim '' Boots ''\<rparr> else p)
                                (products shopState),
                 categories := map (\<lambda>c. if c = ''Shoes'' then trim '' Boots '' else c)
                                (categories shopState)\<rparr>"
    by (rule conjunct1)
  have ps: "map category (products (snd (snd (updateCategory ''Shoes'' '' Boots '' shopState))))
       = [''Clothing'', ''Boots'']"
    by (simp only: eq tr) (simp add: example_defs)
  have cs: "categories (snd (snd (updateCategory ''Shoes'' '' Boots '' shopState)))
       = [''Clothing'', ''Boots'']"
    by (simp only: eq tr) (simp add: example_defs)
  have ne: "trim '' Boots '' \<noteq> ''Shoes''"
    by (simp add: tr)
  from ok ne ps cs show ?thesis by blast
qed

text \<open>
  Claim C6 as it is stated fails: renaming \<open>Clothing\<close> to \<open>Clothing\<close> succeeds, and the
  product of that category still has it.
\<close>

theorem updateCategory_cascade_counterexample:
  "fst (updateCategory ''Clothing'' ''Clothing'' shopState)
   \<and> map category (products shopState) = [''Clothing'', ''Shoes'']
   \<and> map category (products (snd (snd (updateCategory ''Clothing'' ''Clothing'' shopState))))
       = [''Clothing'', ''Shoes'']"
  by (simp add: updateCategory_def example_defs trim_def isWhitespace_def Let_def)

text \<open>
  Claim C7. While some product has the category \<open>name\<close>, \<open>deleteCategory name\<close> reports
  that the category is in use, with the number of those products, and changes nothing,
  whatever the answer to the confirmation would be. When no product has it, the category
  is removed if the user confirms and nothing changes if not. So a call that changes the
  state found no product of the category and was confirmed.
\<close>

theorem deleteCategory_guard:
  "(0 < length (filter (\<lambda>p. category p = name) (products st)) \<longrightarrow>
      deleteCategory confirmed name st =
        (Some (CategoryInUse name (length (filter (\<lambda>p. category p = name) (products st)))), st))
   \<and> (length (filter (\<lambda>p. category p = name) (products st)) = 0 \<longrightarrow>
        deleteCategory True name st =
          (Some (CategoryDeleted name),
           st\<lparr>categories := filter (\<lambda>c. c \<noteq> name) (categories st)\<rparr>)
        \<and> deleteCategory False name st = (None, st))
   \<and> (snd (deleteCategory confirmed name st) \<noteq> st \<longrightarrow>
        length (filter (\<lambda>p. category p = name) (products st)) = 0 \<and> confirmed)"
  by (auto simp: deleteCategory_def Let_def)

theorem deleteCategory_guard_witness:
  "0 < length (filter (\<lambda>p. category p = ''Shoes'') (products shopState))
   \<and> deleteCategory True ''Shoes'' shopState = (Some (CategoryInUse ''Shoes'' 1), shopState)
   \<and> length (filter (\<lambda>p. category p = ''Shoes'')
        (products (shopState\<lparr>products := [productA]\<rparr>))) = 0
   \<and> categories (snd (deleteCategory True ''Shoes'' (shopState\<lparr>products := [productA]\<rparr>)))
       = [''Clothing'']"
proof -
  have used: "length (filter (\<lambda>p. category p = ''Shoes'') (products shopState)) = 1"
    by (simp add: example_defs)
  then have pos: "0 < length (filter (\<lambda>p. category p = ''Shoes'') (products shopState))"
    by simp
  have unused: "length (filter (\<lambda>p. category p = ''Shoes'')
        (products (shopState\<lparr>products := [productA]\<rparr>))) = 0"
    by (simp add: example_defs)
  from deleteCategory_guard [of "''Shoes''" shopState True] pos
  have "deleteCategory True ''Shoes'' shopState =
      (Some (CategoryInUse ''Shoes''
         (length (filter (\<lambda>p. category p = ''Shoes'') (products shopState)))), shopState)"
    by blast
  then have refused: "deleteCategory True ''Shoes'' shopState
      = (Some (CategoryInUse ''Shoes'' 1), shopState)"
    by (simp only: used)
  from deleteCategory_guard [of "''Shoes''" "shopState\<lparr>products := [productA]\<rparr>" True] unused
  have "deleteCategory True ''Shoes'' (shopState\<lparr>products := [productA]\<rparr>) =
      (Some (CategoryDeleted ''Shoes''),
       shopState\<lparr>products := [productA],
         categories := filter (\<lambda>c. c \<noteq> ''Shoes'')
           (categories (shopState\<lparr>products := [productA]\<rparr>))\<rparr>)"
    by blast
  then have removed:
    "categories (snd (deleteCategory True ''Shoes'' (shopState\<lparr>products := [productA]\<rparr>)))
       = [''Clothing'']"
    by (simp add: example_defs)
  from pos refused unused removed show ?thesis by blast
qed

section \<open>Lemmas on import and export\<close>

lemma importStep_null: "importStep JNull k st = Inl TypeError"
  by (simp add: importStep_def)

lemma importStep_value:
  "data \<noteq> JNull \<Longrightarrow>
   importStep data k st =
     Inr (case getProp data k of
            Inr (Some v) \<Rightarrow> if truthyJson v then st(k \<mapsto> v) else st
          | _ \<Rightarrow> st)"
  by (cases data) (auto simp: importStep_def split: option.splits)

lemma importSteps_value:
  "data \<noteq> JNull \<Longrightarrow>
   fst (importSteps data ks st) = None
   \<and> (\<forall>k. snd (importSteps data ks st) k =
          (case getProp data k of
             Inr (Some v) \<Rightarrow> if k \<in> set ks \<and> truthyJson v then Some v else st k
           | _ \<Rightarrow> st k))"
proof (induction ks arbitrary: st)
  case Nil
  show ?case by (auto split: sum.splits option.splits)
next
  case (Cons k ks)
  show ?case
    using Cons.IH [OF Cons.prems] Cons.prems
    by (auto simp: importStep_value split: sum.splits option.splits)
qed

lemma importSteps_null: "importSteps JNull importKeys st = (Some TypeError, st)"
  by (simp add: importKeys_def importStep_null)

lemma writtenStore_value:
  "data \<noteq> JNull \<Longrightarrow>
   writtenStore data st k =
     (case getProp data k of
        Inr (Some v) \<Rightarrow> if k \<in> set importKeys \<and> truthyJson v then Some v else st k
      | _ \<Rightarrow> st k)"
  using importSteps_value [of data importKeys st] by (simp add: writtenStore_def)

lemma render_same:
  "businessTypeOf (st ''systemSettings'') = businessTypeOf (before ''systemSettings'') \<Longrightarrow>
   render dc ad before st = st"
  by (simp add: render_def)

lemma render_changed:
  "businessTypeOf (st ''systemSettings'') \<noteq> businessTypeOf (before ''systemSettings'') \<Longrightarrow>
   render dc ad before st = businessTypeEffect dc ad st"
  by (simp add: render_def)

lemma businessTypeEffect_other:
  "k \<noteq> ''categories'' \<Longrightarrow> businessTypeEffect dc ad st k = st k"
  by (auto simp: businessTypeEffect_def split: sum.splits bool.splits)

lemma render_other: "k \<noteq> ''categories'' \<Longrightarrow> render dc ad before st k = st k"
  by (simp add: render_def businessTypeEffect_other)

lemma importData_null: "importData dc ad True JNull st = (Some InvalidDataFile, st)"
  by (simp add: importData_def importSteps_null render_same)

lemma importData_value:
  assumes "data \<noteq> JNull"
  shows "importData dc ad True data st
     = (Some DataImported, render dc ad st (writtenStore data st))"
  using importSteps_value [OF assms, of importKeys st]
  by (auto simp: importData_def writtenStore_def split: prod.splits option.splits)

lemma truthy_shape:
  "isArray v \<Longrightarrow> truthyJson v" "isObject v \<Longrightarrow> truthyJson v"
  by (cases v; simp)+

lemma expectedStructure_truthy:
  "expectedStructure data \<Longrightarrow> k \<in> set importKeys \<Longrightarrow> getProp data k = Inr (Some v) \<Longrightarrow>
   truthyJson v"
  by (cases data)
    (auto simp: expectedStructure_def list_all_iff hasShape_def truthy_shape
      split: if_splits dest!: bspec)

lemma expectedStructure_not_null: "expectedStructure data \<Longrightarrow> data \<noteq> JNull"
  by (auto simp: expectedStructure_def)

lemma map_of_exported:
  "map_of (List.map_filter (\<lambda>k. map_option (\<lambda>v. (k, v)) (st k)) ks) k
     = (if k \<in> set ks then st k else None)"
  by (induction ks) (auto simp: List.map_filter_simps split: option.splits)

lemma importStep_export: "importStep (exportBackup st) k st = Inr st"
  by (auto simp: importStep_def exportBackup_def map_of_exported split: option.splits)

lemma importSteps_export: "importSteps (exportBackup st) ks st = (None, st)"
  by (induction ks) (simp_all add: importStep_export)

section \<open>Claims on import and export\<close>

text \<open>
  Claim C2, as the code has it. Without the confirmation \<open>importData\<close> changes nothing.
  With it, the only document that fails is \<open>null\<close>: reading its first property throws,
  the handler reports an invalid data file and nothing is changed. For every other
  document the import is reported as done, and a key holds afterwards the value the
  document has for it when it is one of the ten keys and that value is truthy (every
  array and every object is), and its value of before otherwise; so a document of the
  expected structure replaces the collection of every key it holds and leaves the others.
  The one exception is the key \<open>categories\<close> when the import changes
  \<open>systemSettings.businessType\<close>: the effect of the provider runs in the render that
  follows, and the state is then what the effect makes of the imported one (it replaces
  a category list that is empty or holds default categories only). No test of the shape
  is made. A text that \<open>JSON.parse\<close> rejects is reported by \<open>handleImportJson\<close> as an
  invalid file and changes nothing.
\<close>

theorem importData_partial:
  "importData dc ad False data st = (None, st)
   \<and> importData dc ad True JNull st = (Some InvalidDataFile, st)
   \<and> (data \<noteq> JNull \<longrightarrow> fst (importData dc ad True data st) = Some DataImported)
   \<and> (data \<noteq> JNull
        \<and> (k \<noteq> ''categories''
             \<or> businessTypeOf (writtenStore data st ''systemSettings'')
                 = businessTypeOf (st ''systemSettings'')) \<longrightarrow>
        snd (importData dc ad True data st) k =
          (case getProp data k of
             Inr (Some v) \<Rightarrow> if k \<in> set importKeys \<and> truthyJson v then Some v else st k
           | _ \<Rightarrow> st k))
   \<and> (expectedStructure data \<and> k \<in> set importKeys
        \<and> (k \<noteq> ''categories''
             \<or> businessTypeOf (writtenStore data st ''systemSettings'')
                 = businessTypeOf (st ''systemSettings'')) \<longrightarrow>
        snd (importData dc ad True data st) k =
          (case getProp data k of Inr (Some v) \<Rightarrow> Some v | _ \<Rightarrow> st k))
   \<and> (data \<noteq> JNull
        \<and> businessTypeOf (writtenStore data st ''systemSettings'')
            \<noteq> businessTypeOf (st ''systemSettings'') \<longrightarrow>
        snd (importData dc ad True data st) = businessTypeEffect dc ad (writtenStore data st))
   \<and> (parse text = None \<longrightarrow>
        handleImportJson dc ad parse confirmed text st = (Some InvalidJsonFile, st))"
proof -
  have declined: "importData dc ad False data st = (None, st)"
    by (simp add: importData_def)
  have null: "importData dc ad True JNull st = (Some InvalidDataFile, st)"
    by (rule importData_null)
  have imported: "data \<noteq> JNull \<longrightarrow> fst (importData dc ad True data st) = Some DataImported"
    by (simp add: importData_value)
  have each: "data \<noteq> JNull
        \<and> (k \<noteq> ''categories''
             \<or> businessTypeOf (writtenStore data st ''systemSettings'')
                 = businessTypeOf (st ''systemSettings'')) \<longrightarrow>
        snd (importData dc ad True data st) k =
          (case getProp data k of
             Inr (Some v) \<Rightarrow> if k \<in> set importKeys \<and> truthyJson v then Some v else st k
           | _ \<Rightarrow> st k)"
  proof
    assume a: "data \<noteq> JNull
        \<and> (k \<noteq> ''categories''
             \<or> businessTypeOf (writtenStore data st ''systemSettings'')
                 = businessTypeOf (st ''systemSettings''))"
    then have "render dc ad st (writtenStore data st) k = writtenStore data st k"
      by (auto simp: render_other render_same)
    with a show "snd (importData dc ad True data st) k =
          (case getProp data k of
             Inr (Some v) \<Rightarrow> if k \<in> set importKeys \<and> truthyJson v then Some v else st k
           | _ \<Rightarrow> st k)"
      by (simp add: importData_value writtenStore_value)
  qed
  have shaped: "expectedStructure data \<and> k \<in> set importKeys
        \<and> (k \<noteq> ''categories''
             \<or> businessTypeOf (writtenStore data st ''systemSettings'')
                 = businessTypeOf (st ''systemSettings'')) \<longrightarrow>
        snd (importData dc ad True data st) k =
          (case getProp data k of Inr (Some v) \<Rightarrow> Some v | _ \<Rightarrow> st k)"
  proof
    assume a: "expectedStructure data \<and> k \<in> set importKeys
        \<and> (k \<noteq> ''categories''
             \<or> businessTypeOf (writtenStore data st ''systemSettings'')
                 = businessTypeOf (st ''systemSettings''))"
    then have nn: "data \<noteq> JNull" by (simp add: expectedStructure_not_null)
    from a have "(case getProp data k of
             Inr (Some v) \<Rightarrow> if k \<in> set importKeys \<and> truthyJson v then Some v else st k
           | _ \<Rightarrow> st k)
        = (case getProp data k of Inr (Some v) \<Rightarrow> Some v | _ \<Rightarrow> st k)"
      using expectedStructure_truthy [of data k]
      by (auto split: sum.splits option.splits)
    with each nn a show "snd (importData dc ad True data st) k =
          (case getProp data k of Inr (Some v) \<Rightarrow> Some v | _ \<Rightarrow> st k)"
      by simp
  qed
  have effect: "data \<noteq> JNull
        \<and> businessTypeOf (writtenStore data st ''systemSettings'')
            \<noteq> businessTypeOf (st ''systemSettings'') \<longrightarrow>
        snd (importData dc ad True data st) = businessTypeEffect dc ad (writtenStore data st)"
    by (simp add: importData_value render_changed)
  have unparsed: "parse text = None \<longrightarrow>
        handleImportJson dc ad parse confirmed text st = (Some InvalidJsonFile, st)"
    by (simp add: handleImportJson_def)
  from declined null imported each shaped effect unparsed show ?thesis by blast
qed

theorem importData_partial_witness:
  "categoriesDoc \<noteq> JNull
   \<and> expectedStructure categoriesDoc
   \<and> ''categories'' \<in> set importKeys
   \<and> businessTypeOf (writtenStore categoriesDoc sampleStore ''systemSettings'')
       = businessTypeOf (sampleStore ''systemSettings'')
   \<and> fst (importData exampleDefaultsOf exampleAllDefaults True categoriesDoc sampleStore)
       = Some DataImported
   \<and> snd (importData exampleDefaultsOf exampleAllDefaults True categoriesDoc sampleStore)
         ''categories'' = Some (JArr [JStr ''Hats''])
   \<and> snd (importData exampleDefaultsOf exampleAllDefaults True categoriesDoc sampleStore)
         ''products'' = sampleStore ''products''
   \<and> groceryDoc \<noteq> JNull
   \<and> businessTypeOf (writtenStore groceryDoc sampleStore ''systemSettings'')
       \<noteq> businessTypeOf (sampleStore ''systemSettings'')
   \<and> sampleStore ''categories'' = Some (JArr [])
   \<and> snd (importData exampleDefaultsOf exampleAllDefaults True groceryDoc sampleStore)
         ''categories'' = Some (JArr [JStr ''Fruit''])
   \<and> importData exampleDefaultsOf exampleAllDefaults True JNull sampleStore
       = (Some InvalidDataFile, sampleStore)"
proof -
  have nn: "categoriesDoc \<noteq> JNull"
    by (simp add: categoriesDoc_def)
  have es: "expectedStructure categoriesDoc"
    by (simp add: categoriesDoc_def expectedStructure_def importKeys_def hasShape_def)
  have key: "''categories'' \<in> set importKeys"
    by (simp add: importKeys_def)
  have c: "getProp categoriesDoc ''categories'' = Inr (Some (JArr [JStr ''Hats'']))"
    by (simp add: categoriesDoc_def)
  have p: "getProp categoriesDoc ''products'' = Inr None"
    by (simp add: categoriesDoc_def)
  have "writtenStore categoriesDoc sampleStore ''systemSettings'' = sampleStore ''systemSettings''"
    by (simp add: writtenStore_value [OF nn]) (simp add: categoriesDoc_def)
  then have same: "businessTypeOf (writtenStore categoriesDoc sampleStore ''systemSettings'')
       = businessTypeOf (sampleStore ''systemSettings'')"
    by simp
  note cats = importData_partial [of exampleDefaultsOf exampleAllDefaults categoriesDoc
      sampleStore "''categories''"]
  note prods = importData_partial [of exampleDefaultsOf exampleAllDefaults categoriesDoc
      sampleStore "''products''"]
  from cats nn
  have imported: "fst (importData exampleDefaultsOf exampleAllDefaults True categoriesDoc sampleStore)
      = Some DataImported"
    by blast
  from cats es key same
  have "snd (importData exampleDefaultsOf exampleAllDefaults True categoriesDoc sampleStore)
        ''categories'' =
      (case getProp categoriesDoc ''categories'' of
         Inr (Some v) \<Rightarrow> Some v | _ \<Rightarrow> sampleStore ''categories'')"
    by blast
  then have replaced:
    "snd (importData exampleDefaultsOf exampleAllDefaults True categoriesDoc sampleStore)
        ''categories'' = Some (JArr [JStr ''Hats''])"
    by (simp add: c)
  have pk: "''products'' \<noteq> ''categories''"
    by simp
  from prods nn pk
  have "snd (importData exampleDefaultsOf exampleAllDefaults True categoriesDoc sampleStore)
        ''products'' =
      (case getProp categoriesDoc ''products'' of
         Inr (Some v) \<Rightarrow> if ''products'' \<in> set importKeys \<and> truthyJson v then Some v
                         else sampleStore ''products''
       | _ \<Rightarrow> sampleStore ''products'')"
    by blast
  then have kept:
    "snd (importData exampleDefaultsOf exampleAllDefaults True categoriesDoc sampleStore)
        ''products'' = sampleStore ''products''"
    by (simp add: p)
  from cats
  have null: "importData exampleDefaultsOf exampleAllDefaults True JNull sampleStore
      = (Some InvalidDataFile, sampleStore)"
    by blast
  have gn: "groceryDoc \<noteq> JNull"
    by (simp add: groceryDoc_def)
  have gs: "writtenStore groceryDoc sampleStore ''systemSettings''
      = Some (JObj [(''businessType'', JStr ''grocery'')])"
    by (simp add: writtenStore_value [OF gn]) (simp add: groceryDoc_def importKeys_def)
  have gc: "writtenStore groceryDoc sampleStore ''categories'' = Some (JArr [])"
    by (simp add: writtenStore_value [OF gn])
      (simp add: groceryDoc_def sampleStore_def emptyStore_def)
  have old: "sampleStore ''systemSettings'' = Some (JObj [(''businessType'', JStr ''clothing'')])"
    by (simp add: sampleStore_def emptyStore_def)
  have changed: "businessTypeOf (writtenStore groceryDoc sampleStore ''systemSettings'')
       \<noteq> businessTypeOf (sampleStore ''systemSettings'')"
    by (simp add: gs old businessTypeOf_def)
  have empty: "sampleStore ''categories'' = Some (JArr [])"
    by (simp add: sampleStore_def emptyStore_def)
  from importData_partial [of exampleDefaultsOf exampleAllDefaults groceryDoc sampleStore
      "''categories''"] gn changed
  have "snd (importData exampleDefaultsOf exampleAllDefaults True groceryDoc sampleStore)
      = businessTypeEffect exampleDefaultsOf exampleAllDefaults (writtenStore groceryDoc sampleStore)"
    by blast
  then have seeded:
    "snd (importData exampleDefaultsOf exampleAllDefaults True groceryDoc sampleStore)
        ''categories'' = Some (JArr [JStr ''Fruit''])"
    by (simp add: businessTypeEffect_def isDefaultOrEmpty_def gc gs businessTypeOf_def
        exampleDefaultsOf_def)
  from nn es key same imported replaced kept gn changed empty seeded null
  show ?thesis by blast
qed

text \<open>
  Claim C2 as it is stated fails: a document whose \<open>products\<close> is the number 5 is not of
  the expected structure, yet the import is reported as done and the number is stored in
  the place of the product list.
\<close>

theorem importData_partial_counterexample:
  "\<not> expectedStructure numberDoc
   \<and> emptyStore ''products'' = Some (JArr [])
   \<and> fst (importData exampleDefaultsOf exampleAllDefaults True numberDoc emptyStore)
       = Some DataImported
   \<and> snd (importData exampleDefaultsOf exampleAllDefaults True numberDoc emptyStore) ''products''
       = Some (JNum 5)"
proof -
  have bad: "\<not> expectedStructure numberDoc"
    by (simp add: numberDoc_def expectedStructure_def importKeys_def hasShape_def)
  have before: "emptyStore ''products'' = Some (JArr [])"
    by (simp add: emptyStore_def)
  have nn: "numberDoc \<noteq> JNull"
    by (simp add: numberDoc_def)
  have imported: "fst (importData exampleDefaultsOf exampleAllDefaults True numberDoc emptyStore)
      = Some DataImported"
    by (simp add: importData_value [OF nn])
  have "writtenStore numberDoc emptyStore ''products'' = Some (JNum 5)"
    by (simp add: writtenStore_value [OF nn]) (simp add: numberDoc_def importKeys_def)
  then have stored:
    "snd (importData exampleDefaultsOf exampleAllDefaults True numberDoc emptyStore) ''products''
       = Some (JNum 5)"
    by (simp add: importData_value [OF nn] render_other)
  from bad before imported stored show ?thesis by blast
qed

text \<open>
  Claim C8. Importing, with the confirmation, the document \<open>exportBackup\<close> builds from a
  state gives that state back, whatever the ten keys hold: every collection, the company
  information and the settings are those of before, and the import is reported as done.
\<close>

theorem export_import_roundtrip:
  "importData defaultCategoriesOf allDefaultCategories True (exportBackup st) st
     = (Some DataImported, st)"
  by (simp add: importData_def importSteps_export render_same)

end
